theory Spec2Isabelle
  imports Complex_Main "HOL-Library.Word"
begin

unbundle bit_operations_syntax

section \<open>Values shared with SDL and Nuklear\<close>

text \<open>
  Go's \<open>float32\<close>: a NaN, the two infinities, or a finite value. Both zeros are
  \<open>Finite 0\<close> (they compare equal). Only the comparisons are defined here; arithmetic
  that rounds is taken from the hardware as a parameter (\<open>f32_ops\<close> below).
\<close>

datatype float32 = NaN | NegInf | PosInf | Finite real

fun f32_less :: "float32 \<Rightarrow> float32 \<Rightarrow> bool" where
  "f32_less NaN b = False"
| "f32_less a NaN = False"
| "f32_less (Finite a) (Finite b) = (a < b)"
| "f32_less NegInf NegInf = False"
| "f32_less NegInf b = True"
| "f32_less a PosInf = (a \<noteq> PosInf)"
| "f32_less a b = False"

definition f32_greater :: "float32 \<Rightarrow> float32 \<Rightarrow> bool" where
  "f32_greater a b = f32_less b a"

definition f32_eq :: "float32 \<Rightarrow> float32 \<Rightarrow> bool" where
  "f32_eq a b = (a \<noteq> NaN \<and> b \<noteq> NaN \<and> a = b)"

record f32_ops =
  of_int32 :: "32 word \<Rightarrow> float32"
  fdiv :: "float32 \<Rightarrow> float32 \<Rightarrow> float32"

type_synonym Keycode = "32 word"
type_synonym Keymod = "16 word"

definition KMOD_LSHIFT :: Keymod where "KMOD_LSHIFT = 0x0001"
definition KMOD_RSHIFT :: Keymod where "KMOD_RSHIFT = 0x0002"
definition KMOD_LCTRL :: Keymod where "KMOD_LCTRL = 0x0040"
definition KMOD_RCTRL :: Keymod where "KMOD_RCTRL = 0x0080"
definition KMOD_LALT :: Keymod where "KMOD_LALT = 0x0100"
definition KMOD_RALT :: Keymod where "KMOD_RALT = 0x0200"
definition KMOD_LGUI :: Keymod where "KMOD_LGUI = 0x0400"
definition KMOD_RGUI :: Keymod where "KMOD_RGUI = 0x0800"
definition KMOD_CTRL :: Keymod where "KMOD_CTRL = KMOD_LCTRL OR KMOD_RCTRL"
definition KMOD_SHIFT :: Keymod where "KMOD_SHIFT = KMOD_LSHIFT OR KMOD_RSHIFT"
definition KMOD_ALT :: Keymod where "KMOD_ALT = KMOD_LALT OR KMOD_RALT"
definition KMOD_GUI :: Keymod where "KMOD_GUI = KMOD_LGUI OR KMOD_RGUI"

lemmas KMOD_defs =
  KMOD_LSHIFT_def KMOD_RSHIFT_def KMOD_LCTRL_def KMOD_RCTRL_def KMOD_LALT_def KMOD_RALT_def
  KMOD_LGUI_def KMOD_RGUI_def KMOD_CTRL_def KMOD_SHIFT_def KMOD_ALT_def KMOD_GUI_def

definition K_BACKSPACE :: Keycode where "K_BACKSPACE = 8"
definition K_TAB :: Keycode where "K_TAB = 9"
definition K_RETURN :: Keycode where "K_RETURN = 13"
definition K_a :: Keycode where "K_a = 97"
definition K_c :: Keycode where "K_c = 99"
definition K_e :: Keycode where "K_e = 101"
definition K_v :: Keycode where "K_v = 118"
definition K_x :: Keycode where "K_x = 120"
definition K_z :: Keycode where "K_z = 122"
definition K_HOME :: Keycode where "K_HOME = 0x4000004A"
definition K_PAGEUP :: Keycode where "K_PAGEUP = 0x4000004B"
definition K_END :: Keycode where "K_END = 0x4000004D"
definition K_PAGEDOWN :: Keycode where "K_PAGEDOWN = 0x4000004E"
definition K_RIGHT :: Keycode where "K_RIGHT = 0x4000004F"
definition K_LEFT :: Keycode where "K_LEFT = 0x40000050"
definition K_DOWN :: Keycode where "K_DOWN = 0x40000051"
definition K_UP :: Keycode where "K_UP = 0x40000052"
definition K_LSHIFT :: Keycode where "K_LSHIFT = 0x400000E1"
definition K_RSHIFT :: Keycode where "K_RSHIFT = 0x400000E5"

lemmas K_defs =
  K_BACKSPACE_def K_TAB_def K_RETURN_def K_a_def K_c_def K_e_def K_v_def K_x_def K_z_def
  K_HOME_def K_PAGEUP_def K_END_def K_PAGEDOWN_def K_RIGHT_def K_LEFT_def K_DOWN_def K_UP_def
  K_LSHIFT_def K_RSHIFT_def

text \<open>
  Nuklear's abstract keys (\<open>nk.Key\<close>). \<open>KeyNone\<close> is the enumeration's first member,
  so it is the value of a \<open>KeyAction\<close> field that a Go literal leaves unset.
\<close>

datatype nk_Key =
    KeyNone | KeyShift | KeyCtrl | KeyDel | KeyEnter | KeyTab | KeyBackspace
  | KeyCopy | KeyCut | KeyPaste | KeyUp | KeyDown | KeyLeft | KeyRight
  | KeyTextInsertMode | KeyTextReplaceMode | KeyTextResetMode
  | KeyTextLineStart | KeyTextLineEnd | KeyTextStart | KeyTextEnd
  | KeyTextUndo | KeyTextRedo | KeyTextSelectAll | KeyTextWordLeft | KeyTextWordRight
  | KeyScrollStart | KeyScrollEnd | KeyScrollDown | KeyScrollUp

datatype nk_Button = ButtonLeft | ButtonMiddle | ButtonRight | ButtonDouble

section \<open>events.go: bindings and the input translator\<close>

datatype EventType =
    EventTypeUnhandled | EventTypeQuit | EventTypeInputMotion | EventTypeInputButton
  | EventTypeInputScroll | EventTypeInputKey | EventTypeInputUnicode

record KeyInput =
  Code :: Keycode
  Mod :: Keymod

record KeyAction =
  Key1 :: nk_Key
  Key2 :: nk_Key

record keyBinding =
  input :: KeyInput
  action :: KeyAction

text \<open>
  A Go \<open>map[KeyInput]KeyAction\<close>. Reading a key that is absent gives the zero
  \<open>KeyAction\<close>, both keys \<open>KeyNone\<close>.
\<close>

type_synonym bindings_map = "KeyInput \<rightharpoonup> KeyAction"

definition zeroKeyAction :: KeyAction where
  "zeroKeyAction = \<lparr>Key1 = KeyNone, Key2 = KeyNone\<rparr>"

definition map_index :: "bindings_map \<Rightarrow> KeyInput \<Rightarrow> KeyAction" where
  "map_index m k = (case m k of None \<Rightarrow> zeroKeyAction | Some a \<Rightarrow> a)"

datatype panic = ConflictingBinding KeyInput | SliceBoundsOutOfRange

text \<open>
  \<open>expandModBinding\<close>: the loop over the first \<open>originalLen\<close> entries of the slice,
  replacing an entry that has both bits of the alias by its left variant and appending
  the right variant. The index stays below the slice's length, which only grows.
\<close>

function expandModBinding_loop ::
  "nat \<Rightarrow> nat \<Rightarrow> keyBinding list \<Rightarrow> Keymod \<Rightarrow> Keymod \<Rightarrow> Keymod \<Rightarrow> keyBinding list" where
  "expandModBinding_loop i originalLen bs both left right =
     (if i < originalLen then
        (let inp = input (bs ! i); act = action (bs ! i) in
         if Mod inp AND both \<noteq> both then
           expandModBinding_loop (i + 1) originalLen bs both left right
         else
           (let leftMod = (Mod inp AND NOT both) OR left;
                leftInput = inp\<lparr>Mod := leftMod\<rparr>;
                bs1 = bs[i := \<lparr>input = leftInput, action = act\<rparr>];
                rightMod = (Mod inp AND NOT both) OR right;
                rightInput = inp\<lparr>Mod := rightMod\<rparr>;
                bs2 = bs1 @ [\<lparr>input = rightInput, action = act\<rparr>]
            in expandModBinding_loop (i + 1) originalLen bs2 both left right))
      else bs)"
  by pat_completeness auto
termination
  by (relation "measure (\<lambda>(i, n, _). n - i)") auto

declare expandModBinding_loop.simps [simp del]

definition expandModBinding ::
  "keyBinding list \<Rightarrow> Keymod \<Rightarrow> Keymod \<Rightarrow> Keymod \<Rightarrow> keyBinding list" where
  "expandModBinding bs both left right =
     expandModBinding_loop 0 (length bs) bs both left right"

text \<open>The four expansions applied to one entry of \<open>src\<close>.\<close>

definition expandOne :: "KeyInput \<Rightarrow> KeyAction \<Rightarrow> keyBinding list" where
  "expandOne inp act =
     (let bs = [\<lparr>input = inp, action = act\<rparr>];
          bs = expandModBinding bs KMOD_CTRL KMOD_LCTRL KMOD_RCTRL;
          bs = expandModBinding bs KMOD_SHIFT KMOD_LSHIFT KMOD_RSHIFT;
          bs = expandModBinding bs KMOD_ALT KMOD_LALT KMOD_RALT;
          bs = expandModBinding bs KMOD_GUI KMOD_LGUI KMOD_RGUI
      in bs)"

text \<open>
  The inner loop of \<open>expandModBindings\<close>: the conflict test compares the binding
  already in \<open>dst\<close> with \<open>src[binding.input]\<close>, as the source does, and the panic
  names the entry of \<open>src\<close> being expanded.
\<close>

fun writeBindings ::
  "bindings_map \<Rightarrow> KeyInput \<Rightarrow> bindings_map \<Rightarrow> keyBinding list \<Rightarrow> panic + bindings_map" where
  "writeBindings src inp dst [] = Inr dst"
| "writeBindings src inp dst (b # bs) =
     (case dst (input b) of
        Some dstBinding \<Rightarrow>
          if dstBinding \<noteq> map_index src (input b) then Inl (ConflictingBinding inp)
          else writeBindings src inp (dst(input b \<mapsto> action b)) bs
      | None \<Rightarrow> writeBindings src inp (dst(input b \<mapsto> action b)) bs)"

text \<open>
  \<open>expandModBindings dst src\<close>. Go visits a map in an order it does not fix, so the
  order of \<open>range src\<close> is an argument: the entries of \<open>src\<close> as the loop meets them.
\<close>

fun expandModBindings ::
  "bindings_map \<Rightarrow> (KeyInput \<times> KeyAction) list \<Rightarrow> bindings_map \<Rightarrow> panic + bindings_map" where
  "expandModBindings dst [] src = Inr dst"
| "expandModBindings dst ((inp, act) # rest) src =
     (case writeBindings src inp dst (expandOne inp act) of
        Inl p \<Rightarrow> Inl p
      | Inr dst' \<Rightarrow> expandModBindings dst' rest src)"

datatype EventHandler = EventHandler (bindings: bindings_map)

text \<open>
  \<open>NewEventHandler\<close>, given the bindings as the list of entries in the order the
  range loop visits them (keys distinct, as in a map).
\<close>

definition NewEventHandler :: "(KeyInput \<times> KeyAction) list \<Rightarrow> panic + EventHandler" where
  "NewEventHandler order =
     (case expandModBindings Map.empty order (map_of order) of
        Inl p \<Rightarrow> Inl p
      | Inr bindingsCopy \<Rightarrow> Inr (EventHandler bindingsCopy))"


text \<open>The SDL events \<open>HandleEvent\<close> tells apart; every other event is \<open>OtherEvent\<close>.\<close>

record Keysym =
  Scancode :: "32 word"
  Sym :: Keycode
  SymMod :: "16 word"

datatype Event =
    QuitEvent
  | MouseMotionEvent "32 word" "32 word"
  | MouseButtonEvent "32 word" "32 word" "8 word" "8 word" "8 word"
  | MouseWheelEvent float32 float32
  | KeyboardEvent "8 word" Keysym
  | TextInputEvent "32 word list"
  | OtherEvent

definition PRESSED :: "8 word" where "PRESSED = 1"
definition BUTTON_LEFT :: "8 word" where "BUTTON_LEFT = 1"
definition BUTTON_MIDDLE :: "8 word" where "BUTTON_MIDDLE = 2"
definition BUTTON_RIGHT :: "8 word" where "BUTTON_RIGHT = 3"

text \<open>
  The Nuklear context is the list of the calls made on it, oldest first: what the
  driver does to the context is what it appends here.
\<close>

datatype nk_call =
    ContextClear | InputBegin | InputEnd
  | InputMotion "32 word" "32 word"
  | InputButton nk_Button "32 word" "32 word" bool
  | InputScroll float32 float32
  | InputKey nk_Key bool
  | InputUnicode "32 word"
  | StyleSetFont "nat option"

type_synonym nk_Context = "nk_call list"

definition KeysymInput :: "Keysym \<Rightarrow> KeyInput" where
  "KeysymInput keysym = \<lparr>Code = Sym keysym, Mod = SymMod keysym\<rparr>"

text \<open>
  \<open>HandleEvent\<close>. The fields of \<open>MouseButtonEvent\<close> are X, Y, State, Button, Clicks
  and those of \<open>KeyboardEvent\<close> are State and Keysym.
\<close>

fun HandleEvent :: "EventHandler \<Rightarrow> nk_Context \<Rightarrow> Event \<Rightarrow> nk_Context \<times> EventType \<times> bool" where
  "HandleEvent h nkc QuitEvent = (nkc, EventTypeQuit, False)"
| "HandleEvent h nkc (MouseMotionEvent x y) = (nkc @ [InputMotion x y], EventTypeInputMotion, True)"
| "HandleEvent h nkc (MouseButtonEvent x y st button clicks) =
     (let down = (st = PRESSED);
          nkc1 =
            (if button = BUTTON_LEFT then
               (if clicks = 2 then nkc @ [InputButton ButtonDouble x y down] else nkc)
                 @ [InputButton ButtonLeft x y down]
             else if button = BUTTON_RIGHT then nkc @ [InputButton ButtonRight x y down]
             else if button = BUTTON_MIDDLE then nkc @ [InputButton ButtonMiddle x y down]
             else nkc)
      in (nkc1, EventTypeInputButton, True))"
| "HandleEvent h nkc (MouseWheelEvent px py) = (nkc @ [InputScroll px py], EventTypeInputScroll, True)"
| "HandleEvent h nkc (KeyboardEvent st keysym) =
     (let down = (st = PRESSED);
          inp = KeysymInput keysym;
          act = map_index (bindings h) inp
      in if Key1 act \<noteq> KeyNone then
           (if Key2 act \<noteq> KeyNone
            then (nkc @ [InputKey (Key1 act) down] @ [InputKey (Key2 act) down], EventTypeInputKey, True)
            else (nkc @ [InputKey (Key1 act) down], EventTypeInputKey, True))
         else (nkc, EventTypeInputKey, False))"
| "HandleEvent h nkc (TextInputEvent rs) = (nkc @ map InputUnicode rs, EventTypeInputUnicode, True)"
| "HandleEvent h nkc OtherEvent = (nkc, EventTypeUnhandled, False)"

text \<open>\<open>DefaultBindings\<close>, in the order of the source's literal.\<close>

definition ka :: "nk_Key \<Rightarrow> nk_Key \<Rightarrow> KeyAction" where
  "ka k1 k2 = \<lparr>Key1 = k1, Key2 = k2\<rparr>"

definition ki :: "Keycode \<Rightarrow> Keymod \<Rightarrow> KeyInput" where
  "ki c m = \<lparr>Code = c, Mod = m\<rparr>"

definition DefaultBindings :: "(KeyInput \<times> KeyAction) list" where
  "DefaultBindings =
     [(ki K_LSHIFT 0, ka KeyShift KeyNone),
      (ki K_RSHIFT 0, ka KeyShift KeyNone),
      (ki K_RETURN 0, ka KeyEnter KeyNone),
      (ki K_TAB 0, ka KeyTab KeyNone),
      (ki K_BACKSPACE 0, ka KeyBackspace KeyNone),
      (ki K_HOME 0, ka KeyTextStart KeyScrollStart),
      (ki K_END 0, ka KeyTextEnd KeyScrollEnd),
      (ki K_PAGEUP 0, ka KeyScrollUp KeyNone),
      (ki K_PAGEDOWN 0, ka KeyNone KeyScrollDown),
      (ki K_UP 0, ka KeyUp KeyNone),
      (ki K_DOWN 0, ka KeyDown KeyNone),
      (ki K_LEFT 0, ka KeyLeft KeyNone),
      (ki K_RIGHT 0, ka KeyRight KeyNone),
      (ki K_c KMOD_CTRL, ka KeyCopy KeyNone),
      (ki K_x KMOD_CTRL, ka KeyCut KeyNone),
      (ki K_v KMOD_CTRL, ka KeyPaste KeyNone),
      (ki K_a KMOD_CTRL, ka KeyTextLineStart KeyNone),
      (ki K_e KMOD_CTRL, ka KeyTextLineEnd KeyNone),
      (ki K_z KMOD_CTRL, ka KeyTextUndo KeyNone),
      (ki K_z (KMOD_CTRL OR KMOD_SHIFT), ka KeyTextRedo KeyNone)]"


text \<open>The keys one entry of the table expands to, in the order they are written.\<close>

definition expansionKeys :: "KeyInput \<times> KeyAction \<Rightarrow> KeyInput list" where
  "expansionKeys e = map input (expandOne (fst e) (snd e))"

section \<open>The driver: data\<close>

text \<open>
  A pointer to an SDL or Nuklear object is \<open>handle option\<close>, \<open>None\<close> for nil. An
  error is what \<open>errors.New\<close> or a library returns (\<open>Error\<close>), the sentinel
  \<open>ErrQuit\<close>, or \<open>fmt.Errorf\<close> with the verb \<open>%w\<close> around an error that may be nil
  (\<open>Errorf\<close>; the message keeps the text before the colon).
\<close>

type_synonym handle = nat

datatype error = ErrQuit | Error string | Errorf string "error option"

datatype Color = Color "8 word" "8 word" "8 word" "8 word"

record Rect =
  X :: "32 word"
  Y :: "32 word"
  W :: "32 word"
  H :: "32 word"

datatype nk_Rect = nk_Rect float32 float32 float32 float32

datatype Vertex = Vertex float32 float32 Color float32 float32

record DrawCommand =
  ElemCount :: "32 word"
  ClipRect :: nk_Rect
  Texture :: "handle option"

text \<open>
  The event listener may keep state between calls, so it is given the events passed to it
  so far in this call of \<open>PreRender\<close> (the current one last). In the driver, the fields
  \<open>context\<close> and \<open>null\<close> of the source are \<open>nkContext\<close> and \<open>nullTex\<close>; the two resource
  drivers are not fields but the environment \<open>LibEnv\<close> below.
\<close>

type_synonym EventListener = "Event list \<Rightarrow> EventType \<Rightarrow> bool \<Rightarrow> error option"

record Driver =
  eventListener :: "EventListener option"
  eventHandler :: EventHandler
  window :: "handle option"
  renderer :: "handle option"
  fontTex :: "handle option"
  nkContext :: "handle option"
  atlas :: "handle option"
  font :: "handle option"
  largeFont :: "handle option"
  nullTex :: nat
  convertConf :: "handle option"
  commands :: "handle option"
  elements :: "handle option"
  vertices :: "handle option"
  uiScale :: float32
  bgColor :: Color
  clampClipRect :: bool

text \<open>
  \<open>NewDriver\<close>. The two resource drivers are what \<open>LibEnv\<close> below answers for them, so
  they are never nil here and only the panic of \<open>NewEventHandler\<close> is left. Fields the
  literal does not name hold their zero values.
\<close>

definition zeroDriver :: "EventHandler \<Rightarrow> EventListener option \<Rightarrow> Driver" where
  "zeroDriver h listener =
     \<lparr>eventListener = listener, eventHandler = h,
      window = None, renderer = None, fontTex = None,
      nkContext = None, atlas = None, font = None, largeFont = None, nullTex = 0,
      convertConf = None, commands = None, elements = None, vertices = None,
      uiScale = Finite 1, bgColor = Color 0 0 0 0, clampClipRect = False\<rparr>"

definition NewDriver :: "(KeyInput \<times> KeyAction) list \<Rightarrow> EventListener option \<Rightarrow> panic + Driver" where
  "NewDriver order listener =
     (case NewEventHandler order of
        Inl p \<Rightarrow> Inl p
      | Inr h \<Rightarrow> Inr (zeroDriver h listener))"

text \<open>The calls \<open>Init\<close> and \<open>Destroy\<close> make on the two libraries, in order.\<close>

datatype lib_call =
    Call_InitSDL | Call_CreateWindow | Call_CreateRenderer "handle option"
  | Call_GetInfo "handle option" | Call_GetVersion
  | Call_CreateContext | Call_CreateFontAtlas | Call_CreateFont "handle option" float32
  | Call_Bake "handle option" | Call_CreateTexture "handle option"
  | Call_TextureUpdate "handle option" | Call_SetBlendMode "handle option"
  | Call_ScaleHeight "handle option" float32
  | Call_AtlasEnd "handle option" "handle option" | Call_AtlasCleanup "handle option"
  | Call_CreateConvertConfig nat | Call_NewBuffer
  | Call_ContextFree "handle option" | Call_AtlasFree "handle option"
  | Call_ConvertConfigFree "handle option" | Call_BufferFree "handle option"
  | Call_TextureDestroy handle | Call_RendererDestroy handle | Call_WindowDestroy handle
  | Call_Quit

text \<open>
  What the libraries and the two resource drivers answer: one field per call site of
  \<open>Init\<close>, \<open>bakeFont\<close> and \<open>Destroy\<close>. A call that returns a pointer and an error
  answers with both, as in Go.
\<close>

record LibEnv =
  InitSDL_result :: "error option"
  CreateWindow_result :: "handle option \<times> error option"
  CreateRenderer_result :: "handle option \<times> error option"
  GetInfo_result :: "string \<times> error option"
  GetVersion_result :: "8 word \<times> 8 word \<times> 8 word"
  CreateContext_result :: "handle option \<times> error option"
  CreateFontAtlas_result :: "handle option \<times> error option"
  CreateFont_result :: "handle option \<times> error option"
  CreateLargeFont_result :: "handle option \<times> error option"
  Bake_image_nil :: bool
  CreateTexture_result :: "handle option \<times> error option"
  TextureUpdate_result :: "error option"
  SetBlendMode_result :: "error option"
  AtlasEnd_result :: nat
  CreateConvertConfig_result :: "handle option"
  NewBuffer_results :: "handle option \<times> handle option \<times> handle option"
  fontTexDestroy_result :: "error option"
  rendererDestroy_result :: "error option"
  windowDestroy_result :: "error option"

section \<open>Destroy\<close>

text \<open>
  The deferred calls of \<open>Destroy\<close> run last registered first: the six \<open>Free\<close> calls
  (nil-safe, so made whatever the field holds), then the font texture, the renderer and
  the window, each only when the field is not nil, then \<open>sdl.Quit\<close>. The result starts
  as nil (\<open>return nil\<close>) and a release error is stored only while it is still nil.
\<close>

definition releaseSDL ::
  "handle option \<Rightarrow> (handle \<Rightarrow> lib_call) \<Rightarrow> error option \<Rightarrow> error option \<times> lib_call list
     \<Rightarrow> error option \<times> lib_call list" where
  "releaseSDL field call err2 st =
     (case field of
        None \<Rightarrow> st
      | Some p \<Rightarrow>
          (if err2 \<noteq> None \<and> fst st = None then err2 else fst st, snd st @ [call p]))"

definition Destroy :: "LibEnv \<Rightarrow> Driver \<Rightarrow> error option \<times> lib_call list" where
  "Destroy env d =
     (let st = (None,
            [Call_BufferFree (vertices d), Call_BufferFree (elements d),
             Call_BufferFree (commands d), Call_ConvertConfigFree (convertConf d),
             Call_AtlasFree (atlas d), Call_ContextFree (nkContext d)]);
          st = releaseSDL (fontTex d) Call_TextureDestroy (fontTexDestroy_result env) st;
          st = releaseSDL (renderer d) Call_RendererDestroy (rendererDestroy_result env) st;
          st = releaseSDL (window d) Call_WindowDestroy (windowDestroy_result env) st
      in (fst st, snd st @ [Call_Quit]))"

section \<open>Init\<close>

text \<open>
  A step of \<open>Init\<close> either goes on with the driver and the calls made so far, or returns
  early. An early return keeps two errors apart: the value returned, and the value of
  the local variable \<open>err\<close> that the deferred function tests.
\<close>

type_synonym init_state = "Driver \<times> lib_call list"
type_synonym init_return = "error \<times> error option \<times> Driver \<times> lib_call list"
type_synonym init_step = "LibEnv \<Rightarrow> init_state \<Rightarrow> init_return + init_state"

definition step_InitSDL :: init_step where
  "step_InitSDL env st =
     (case st of (d, tr) \<Rightarrow>
       (let err = InitSDL_result env; tr = tr @ [Call_InitSDL] in
        case err of
          Some e \<Rightarrow> Inl (Errorf ''initializing SDL'' (Some e), err, d, tr)
        | None \<Rightarrow> Inr (d, tr)))"

definition step_CreateWindow :: init_step where
  "step_CreateWindow env st =
     (case st of (d, tr) \<Rightarrow>
       (let d = d\<lparr>window := fst (CreateWindow_result env)\<rparr>;
            err = snd (CreateWindow_result env);
            tr = tr @ [Call_CreateWindow] in
        case err of
          Some e \<Rightarrow> Inl (Errorf ''creating SDL window'' (Some e), err, d, tr)
        | None \<Rightarrow> Inr (d, tr)))"

definition step_CreateRenderer :: init_step where
  "step_CreateRenderer env st =
     (case st of (d, tr) \<Rightarrow>
       (let tr = tr @ [Call_CreateRenderer (window d)];
            d = d\<lparr>renderer := fst (CreateRenderer_result env)\<rparr>;
            err = snd (CreateRenderer_result env) in
        case err of
          Some e \<Rightarrow> Inl (Errorf ''creating SDL renderer'' (Some e), err, d, tr)
        | None \<Rightarrow> Inr (d, tr)))"

definition VERSIONNUM :: "int \<Rightarrow> int \<Rightarrow> int \<Rightarrow> int" where
  "VERSIONNUM x y z = x * 1000 + y * 100 + z"

text \<open>
  The renderer-info step declares \<open>info, err :=\<close> inside the \<open>if\<close>: that \<open>err\<close> is a new
  variable, and the outer \<open>err\<close>, nil since the renderer was created, is what the early
  return leaves for the deferred function.
\<close>

definition step_GetInfo :: init_step where
  "step_GetInfo env st =
     (case st of (d, tr) \<Rightarrow>
       (let outer_err = None;
            name = fst (GetInfo_result env);
            inner_err = snd (GetInfo_result env);
            tr = tr @ [Call_GetInfo (renderer d)] in
        case inner_err of
          Some e \<Rightarrow> Inl (Errorf ''getting SDL renderer info'' (Some e), outer_err, d, tr)
        | None \<Rightarrow>
            if name = ''metal'' then
              (case GetVersion_result env of (major, minor, patch) \<Rightarrow>
                 if VERSIONNUM (uint major) (uint minor) (uint patch) < VERSIONNUM 2 0 22
                 then Inr (d\<lparr>clampClipRect := True\<rparr>, tr @ [Call_GetVersion])
                 else Inr (d, tr @ [Call_GetVersion]))
            else Inr (d, tr)))"

definition step_CreateContext :: init_step where
  "step_CreateContext env st =
     (case st of (d, tr) \<Rightarrow>
       (let d = d\<lparr>nkContext := fst (CreateContext_result env)\<rparr>;
            err = snd (CreateContext_result env);
            tr = tr @ [Call_CreateContext] in
        case err of
          Some e \<Rightarrow> Inl (Errorf ''creating Nuklear context'' (Some e), err, d, tr)
        | None \<Rightarrow> Inr (d, tr)))"

definition step_CreateFontAtlas :: init_step where
  "step_CreateFontAtlas env st =
     (case st of (d, tr) \<Rightarrow>
       (let d = d\<lparr>atlas := fst (CreateFontAtlas_result env)\<rparr>;
            err = snd (CreateFontAtlas_result env);
            tr = tr @ [Call_CreateFontAtlas] in
        case err of
          Some e \<Rightarrow> Inl (Errorf ''creating font atlast'' (Some e), err, d, tr)
        | None \<Rightarrow> Inr (d, tr)))"

definition step_CreateFont :: init_step where
  "step_CreateFont env st =
     (case st of (d, tr) \<Rightarrow>
       (let tr = tr @ [Call_CreateFont (atlas d) (Finite 1)];
            d = d\<lparr>font := fst (CreateFont_result env)\<rparr>;
            err = snd (CreateFont_result env) in
        case err of
          Some e \<Rightarrow> Inl (Errorf ''creating font'' (Some e), err, d, tr)
        | None \<Rightarrow> Inr (d, tr)))"

definition step_CreateLargeFont :: init_step where
  "step_CreateLargeFont env st =
     (case st of (d, tr) \<Rightarrow>
       (let tr = tr @ [Call_CreateFont (atlas d) (Finite 2)];
            d = d\<lparr>largeFont := fst (CreateLargeFont_result env)\<rparr>;
            err = snd (CreateLargeFont_result env) in
        case err of
          Some e \<Rightarrow> Inl (Errorf ''creating large font'' (Some e), err, d, tr)
        | None \<Rightarrow> Inr (d, tr)))"

text \<open>\<open>bakeFont\<close>: the null texture and the error it returns, the driver and the calls.\<close>

definition bakeFont :: "LibEnv \<Rightarrow> init_state \<Rightarrow> (nat \<times> error option) \<times> init_state" where
  "bakeFont env st =
     (case st of (d, tr) \<Rightarrow>
       (let tr = tr @ [Call_Bake (atlas d)] in
        if Bake_image_nil env then ((0, Some (Error ''font baking returned nil image'')), d, tr)
        else
          (let tr = tr @ [Call_CreateTexture (renderer d)];
               d = d\<lparr>fontTex := fst (CreateTexture_result env)\<rparr> in
           case snd (CreateTexture_result env) of
             Some e \<Rightarrow> ((0, Some (Errorf ''creating font texture'' (Some e))), d, tr)
           | None \<Rightarrow>
               (let tr = tr @ [Call_TextureUpdate (fontTex d)] in
                case TextureUpdate_result env of
                  Some e \<Rightarrow> ((0, Some (Errorf ''uploading font atlas to texture'' (Some e))), d, tr)
                | None \<Rightarrow>
                    (let tr = tr @ [Call_SetBlendMode (fontTex d)] in
                     case SetBlendMode_result env of
                       Some e \<Rightarrow> ((0, Some (Errorf ''setting texture blend mode'' (Some e))), d, tr)
                     | None \<Rightarrow>
                         ((AtlasEnd_result env, None), d,
                          tr @ [Call_ScaleHeight (font d) (uiScale d),
                                Call_AtlasEnd (atlas d) (fontTex d),
                                Call_AtlasCleanup (atlas d)]))))))"

definition step_bakeFont :: init_step where
  "step_bakeFont env st =
     (case bakeFont env st of ((nl, err), d, tr) \<Rightarrow>
       (let d = d\<lparr>nullTex := nl\<rparr> in
        case err of
          Some e \<Rightarrow> Inl (Errorf ''baking font'' (Some e), err, d, tr)
        | None \<Rightarrow> Inr (d, tr)))"

definition step_finish :: init_step where
  "step_finish env st =
     (case st of (d, tr) \<Rightarrow>
       (case NewBuffer_results env of (b1, b2, b3) \<Rightarrow>
          Inr (d\<lparr>convertConf := CreateConvertConfig_result env,
                 commands := b1, elements := b2, vertices := b3\<rparr>,
               tr @ [Call_ScaleHeight (largeFont d) (Finite 2),
                     Call_CreateConvertConfig (nullTex d),
                     Call_NewBuffer, Call_NewBuffer, Call_NewBuffer])))"

definition Init_steps :: "init_step list" where
  "Init_steps =
     [step_InitSDL, step_CreateWindow, step_CreateRenderer, step_GetInfo,
      step_CreateContext, step_CreateFontAtlas, step_CreateFont, step_CreateLargeFont,
      step_bakeFont, step_finish]"

fun run_steps :: "init_step list \<Rightarrow> LibEnv \<Rightarrow> init_state \<Rightarrow> init_return + init_state" where
  "run_steps [] env st = Inr st"
| "run_steps (step # steps) env st =
     (case step env st of Inl ret \<Rightarrow> Inl ret | Inr st' \<Rightarrow> run_steps steps env st')"

text \<open>
  \<open>Init\<close>: the value returned, the driver afterwards and every library call made. The
  deferred function runs \<open>Destroy\<close> when the local \<open>err\<close> is not nil and drops its result.
\<close>

definition Init :: "LibEnv \<Rightarrow> Driver \<Rightarrow> error option \<times> Driver \<times> lib_call list" where
  "Init env d =
     (case run_steps Init_steps env (d, []) of
        Inl (ret, err, d', tr) \<Rightarrow>
          if err \<noteq> None then (Some ret, d', tr @ snd (Destroy env d'))
          else (Some ret, d', tr)
      | Inr (d', tr) \<Rightarrow> (None, d', tr))"


section \<open>SetUIScale\<close>

record ScaleEnv =
  GetOutputSize_result :: "32 word \<times> 32 word \<times> error option"
  GetSize_result :: "32 word \<times> 32 word"

text \<open>
  \<open>computeUIScale\<close>: the error, the driver and whether the warning about inconsistent
  scaling was logged.
\<close>

definition computeUIScale :: "f32_ops \<Rightarrow> ScaleEnv \<Rightarrow> Driver \<Rightarrow> error option \<times> Driver \<times> bool" where
  "computeUIScale ops env d =
     (case GetOutputSize_result env of (renderW, renderH, err) \<Rightarrow>
       (case err of
          Some e \<Rightarrow> (Some (Errorf ''getting renderer output size'' (Some e)), d, False)
        | None \<Rightarrow>
            (case GetSize_result env of (windowW, windowH) \<Rightarrow>
              (let renderScaleX = fdiv ops (of_int32 ops renderW) (of_int32 ops windowW);
                   renderScaleY = fdiv ops (of_int32 ops renderH) (of_int32 ops windowH)
               in (None, d\<lparr>uiScale := renderScaleY\<rparr>, \<not> f32_eq renderScaleY renderScaleX)))))"

definition SetUIScale :: "f32_ops \<Rightarrow> ScaleEnv \<Rightarrow> Driver \<Rightarrow> float32 \<Rightarrow> error option \<times> Driver" where
  "SetUIScale ops env d s =
     (if \<not> f32_eq s s \<or> f32_less s (Finite 0) \<or> f32_greater s (Finite 5)
      then (Some (Error ''uiScale is out of bounds''), d)
      else if f32_eq s (Finite 0) then
        (case computeUIScale ops env d of (err, d', warned) \<Rightarrow>
          (case err of
             Some e \<Rightarrow> (Some (Errorf ''computing UI scale'' (Some e)), d')
           | None \<Rightarrow> (None, d')))
      else (None, d\<lparr>uiScale := s\<rparr>))"

section \<open>The renderer\<close>

text \<open>
  The state of the SDL renderer the driver works on: its scale, its clip rectangle
  (\<open>None\<close> when clipping is disabled, as after \<open>SetClipRect(nil)\<close>), its viewport and draw
  colour, and the calls made on it, oldest first. SDL keeps the clip rectangle and the
  viewport in output pixels: \<open>SetClipRect\<close> stores the rectangle it is given multiplied by
  the current scale, and \<open>GetClipRect\<close> and \<open>GetViewport\<close> answer the stored rectangle
  divided by the current scale. A call that fails is recorded and changes nothing else.
  Whether a call fails is the environment's choice, given per call site.
\<close>

datatype render_call =
    Call_SetScale float32 float32
  | Call_SetClipRect "Rect option"
  | Call_RenderGeometry "handle option" "Vertex list" "32 word list"
  | Call_Present
  | Call_GetDrawColor
  | Call_SetDrawColor Color
  | Call_Clear

record Renderer =
  r_scale :: "float32 \<times> float32"
  r_clip :: "Rect option"
  r_viewport :: Rect
  r_color :: Color
  r_calls :: "render_call list"

definition emptyRect :: Rect where
  "emptyRect = \<lparr>X = 0, Y = 0, W = 0, H = 0\<rparr>"

definition GetScale :: "Renderer \<Rightarrow> float32 \<times> float32" where
  "GetScale r = r_scale r"

definition SetScale :: "error option \<Rightarrow> Renderer \<Rightarrow> float32 \<Rightarrow> float32 \<Rightarrow> error option \<times> Renderer" where
  "SetScale fails r sx sy =
     (fails, r\<lparr>r_calls := r_calls r @ [Call_SetScale sx sy],
               r_scale := (if fails = None then (sx, sy) else r_scale r)\<rparr>)"

text \<open>
  The scaling of one coordinate, as in SDL's \<open>SDL_RenderSetClipRect\<close>,
  \<open>SDL_RenderGetClipRect\<close> and \<open>SDL_RenderGetViewport\<close>. Storing multiplies by the scale
  and rounds, down for a position and up for a size; reading divides by the scale and
  truncates towards zero.
  The product and the quotient are taken exactly. Where the scale is not a finite number
  or the result does not fit an \<open>int\<close>, C leaves the conversion undefined: the model then
  leaves the coordinate as it is (a quotient by an infinite scale is 0).
\<close>

definition in_int32 :: "int \<Rightarrow> bool" where
  "in_int32 t = (- (2 ^ 31) \<le> t \<and> t < 2 ^ 31)"

definition scaleCoord :: "(real \<Rightarrow> int) \<Rightarrow> float32 \<Rightarrow> 32 word \<Rightarrow> 32 word" where
  "scaleCoord rounding s x =
     (case s of
        Finite k \<Rightarrow>
          (let t = rounding (real_of_int (sint x) * k)
           in if in_int32 t then word_of_int t else x)
      | _ \<Rightarrow> x)"

definition unscaleCoord :: "float32 \<Rightarrow> 32 word \<Rightarrow> 32 word" where
  "unscaleCoord s x =
     (case s of
        Finite k \<Rightarrow>
          if k = 0 then x
          else
            (let q = real_of_int (sint x) / k;
                 t = (if q < 0 then \<lceil>q\<rceil> else \<lfloor>q\<rfloor>)
             in if in_int32 t then word_of_int t else x)
      | NaN \<Rightarrow> x
      | _ \<Rightarrow> 0)"

definition scaleRect :: "float32 \<times> float32 \<Rightarrow> Rect \<Rightarrow> Rect" where
  "scaleRect s rect =
     \<lparr>X = scaleCoord floor (fst s) (X rect), Y = scaleCoord floor (snd s) (Y rect),
      W = scaleCoord ceiling (fst s) (W rect), H = scaleCoord ceiling (snd s) (H rect)\<rparr>"

definition unscaleRect :: "float32 \<times> float32 \<Rightarrow> Rect \<Rightarrow> Rect" where
  "unscaleRect s rect =
     \<lparr>X = unscaleCoord (fst s) (X rect), Y = unscaleCoord (snd s) (Y rect),
      W = unscaleCoord (fst s) (W rect), H = unscaleCoord (snd s) (H rect)\<rparr>"

text \<open>
  \<open>GetClipRect\<close> answers the stored rectangle, which is empty when clipping is disabled,
  divided by the current scale; \<open>SetClipRect\<close> stores the rectangle multiplied by it.
\<close>

definition GetClipRect :: "Renderer \<Rightarrow> Rect" where
  "GetClipRect r =
     unscaleRect (r_scale r) (case r_clip r of None \<Rightarrow> emptyRect | Some c \<Rightarrow> c)"

definition GetViewport :: "Renderer \<Rightarrow> Rect" where
  "GetViewport r = unscaleRect (r_scale r) (r_viewport r)"

definition SetClipRect :: "error option \<Rightarrow> Renderer \<Rightarrow> Rect option \<Rightarrow> error option \<times> Renderer" where
  "SetClipRect fails r rect =
     (fails, r\<lparr>r_calls := r_calls r @ [Call_SetClipRect rect],
               r_clip := (if fails = None then map_option (scaleRect (r_scale r)) rect
                          else r_clip r)\<rparr>)"

definition RenderGeometry ::
  "error option \<Rightarrow> Renderer \<Rightarrow> handle option \<Rightarrow> Vertex list \<Rightarrow> 32 word list \<Rightarrow> error option \<times> Renderer" where
  "RenderGeometry fails r tex vs idx =
     (fails, r\<lparr>r_calls := r_calls r @ [Call_RenderGeometry tex vs idx]\<rparr>)"

definition Present :: "Renderer \<Rightarrow> Renderer" where
  "Present r = r\<lparr>r_calls := r_calls r @ [Call_Present]\<rparr>"

definition GetDrawColor :: "error option \<Rightarrow> Renderer \<Rightarrow> (Color \<times> error option) \<times> Renderer" where
  "GetDrawColor fails r = ((r_color r, fails), r\<lparr>r_calls := r_calls r @ [Call_GetDrawColor]\<rparr>)"

definition SetDrawColor :: "error option \<Rightarrow> Renderer \<Rightarrow> Color \<Rightarrow> error option \<times> Renderer" where
  "SetDrawColor fails r c =
     (fails, r\<lparr>r_calls := r_calls r @ [Call_SetDrawColor c],
               r_color := (if fails = None then c else r_color r)\<rparr>)"

definition Clear :: "error option \<Rightarrow> Renderer \<Rightarrow> error option \<times> Renderer" where
  "Clear fails r = (fails, r\<lparr>r_calls := r_calls r @ [Call_Clear]\<rparr>)"

section \<open>PreRender\<close>

record World =
  w_queue :: "Event list"
  w_nkc :: nk_Context
  w_renderer :: Renderer

record PreEnv =
  GetDrawColor_err :: "error option"
  SetDrawColor_err :: "error option"
  Clear_err :: "error option"
  restoreDrawColor_err :: "error option"

text \<open>
  The event loop: \<open>sdl.PollEvent\<close> takes the events off the queue one by one until it
  is empty. \<open>Inl\<close> is the early return on a listener error other than \<open>ErrQuit\<close>, with
  the events still queued; \<open>Inr\<close> is the end of the loop, with the value of \<open>alive\<close>.
\<close>

fun pollEvents ::
  "Driver \<Rightarrow> Event list \<Rightarrow> nk_Context \<Rightarrow> bool \<Rightarrow> Event list
     \<Rightarrow> (error \<times> nk_Context \<times> Event list) + (nk_Context \<times> bool)" where
  "pollEvents d seen nkc alive [] = Inr (nkc, alive)"
| "pollEvents d seen nkc alive (event # queue) =
     (case HandleEvent (eventHandler d) nkc event of (nkc', eventType, usedByNuklear) \<Rightarrow>
       (case eventListener d of
          Some listener \<Rightarrow>
            (case listener (seen @ [event]) eventType usedByNuklear of
               Some err \<Rightarrow>
                 if err = ErrQuit then pollEvents d (seen @ [event]) nkc' False queue
                 else Inl (Errorf ''passing event to event listener'' (Some err), nkc', queue)
             | None \<Rightarrow> pollEvents d (seen @ [event]) nkc' alive queue)
        | None \<Rightarrow>
            if eventType = EventTypeQuit then pollEvents d (seen @ [event]) nkc' False queue
            else pollEvents d (seen @ [event]) nkc' alive queue))"

text \<open>
  The part of \<open>PreRender\<close> after the loop, for a frame that goes on: the result and
  the renderer after the deferred restore of the draw colour, and the font selected.
\<close>

definition clearBackground ::
  "PreEnv \<Rightarrow> Driver \<Rightarrow> Renderer \<Rightarrow> error option \<times> Renderer \<times> nk_call list" where
  "clearBackground env d r =
     (case GetDrawColor (GetDrawColor_err env) r of ((old, err), r1) \<Rightarrow>
       (case err of
          Some e \<Rightarrow> (Some (Errorf ''getting renderer draw color'' (Some e)), r1, [])
        | None \<Rightarrow>
            (let body =
               (case SetDrawColor (SetDrawColor_err env) r1 (bgColor d) of (err, r2) \<Rightarrow>
                 (case err of
                    Some e \<Rightarrow> (Some (Errorf ''setting renderer draw color'' (Some e)), r2, [])
                  | None \<Rightarrow>
                      (case Clear (Clear_err env) r2 of (err, r3) \<Rightarrow>
                        (case err of
                           Some e \<Rightarrow> (Some (Errorf ''clearing renderer'' (Some e)), r3, [])
                         | None \<Rightarrow>
                             (None, r3,
                              [StyleSetFont (if f32_greater (uiScale d) (Finite (3 / 2))
                                             then largeFont d else font d)])))))
             in case body of (err, r4, fontCalls) \<Rightarrow>
               (case SetDrawColor (restoreDrawColor_err env) r4 old of (err2, r5) \<Rightarrow>
                 (if err2 \<noteq> None \<and> err = None
                  then (Some (Errorf ''restoring renderer draw color'' err), r5, fontCalls)
                  else (err, r5, fontCalls))))))"

definition PreRender :: "PreEnv \<Rightarrow> Driver \<Rightarrow> World \<Rightarrow> error option \<times> World" where
  "PreRender env d w =
     (let nkc = w_nkc w @ [ContextClear, InputBegin] in
      case pollEvents d [] nkc True (w_queue w) of
        Inl (e, nkc1, queue) \<Rightarrow> (Some e, w\<lparr>w_queue := queue, w_nkc := nkc1 @ [InputEnd]\<rparr>)
      | Inr (nkc1, alive) \<Rightarrow>
          (let nkc2 = nkc1 @ [InputEnd] in
           if \<not> alive then (Some ErrQuit, w\<lparr>w_queue := [], w_nkc := nkc2 @ [InputEnd]\<rparr>)
           else
             (case clearBackground env d (w_renderer w) of (err, r, fontCalls) \<Rightarrow>
               (err, w\<lparr>w_queue := [], w_nkc := nkc2 @ fontCalls @ [InputEnd], w_renderer := r\<rparr>))))"


section \<open>PostRender\<close>

text \<open>
  Go's conversion \<open>int32(f)\<close> truncates towards zero. For a NaN, an infinity or a value
  out of range the language leaves the result to the implementation; the model takes
  the value amd64 gives. No proof below depends on that choice.
\<close>

definition int32_of_float32 :: "float32 \<Rightarrow> 32 word" where
  "int32_of_float32 f =
     (case f of
        Finite x \<Rightarrow>
          (let t = (if x < 0 then \<lceil>x\<rceil> else \<lfloor>x\<rfloor>)
           in if - (2 ^ 31) \<le> t \<and> t < 2 ^ 31 then word_of_int t else 0x80000000)
      | _ \<Rightarrow> 0x80000000)"

definition toSDLRect :: "nk_Rect \<Rightarrow> Rect" where
  "toSDLRect nr =
     (case nr of nk_Rect x y w h \<Rightarrow>
        \<lparr>X = int32_of_float32 x, Y = int32_of_float32 y,
         W = int32_of_float32 w, H = int32_of_float32 h\<rparr>)"

text \<open>The four tests made when \<open>clampClipRect\<close> is set, in the source's order.\<close>

definition clampClip :: "Rect \<Rightarrow> Rect \<Rightarrow> Rect" where
  "clampClip viewport clipRect =
     (let c = (if X clipRect <s 0 then clipRect\<lparr>W := W clipRect + H clipRect, X := 0\<rparr> else clipRect);
          c = (if Y c <s 0 then c\<lparr>H := H c + Y c, Y := 0\<rparr> else c);
          c = (if W viewport <s W c then c\<lparr>W := W viewport\<rparr> else c);
          c = (if H viewport <s H c then c\<lparr>H := H viewport\<rparr> else c)
      in c)"

record PostEnv =
  SetScale_err :: "error option"
  Convert_err :: "error option"
  Convert_commands :: "DrawCommand list"
  Convert_elements :: "32 word list"
  Convert_vertices :: "Vertex list"
  SetClipRect_err :: "nat \<Rightarrow> error option"
  RenderGeometry_err :: "nat \<Rightarrow> error option"
  restoreClipRect_err :: "error option"
  restoreScale_err :: "error option"

text \<open>
  The state the closure given to \<open>DrawForEach\<close> works on: the result variable \<open>err\<close>,
  the renderer and the slice \<open>indices\<close>, whose first element is the index cursor. The
  element buffer is read as a slice whose capacity is its length, so \<open>indices[:n]\<close>
  panics when \<open>n\<close> is larger.
\<close>

type_synonym draw_state = "error option \<times> Renderer \<times> 32 word list"

text \<open>
  The closure, called for the \<open>i\<close>-th command: \<open>Inr\<close> with its boolean result (go on
  or stop) and the new state, or \<open>Inl\<close> with the panic and the renderer as it was then.
\<close>

definition drawCallback ::
  "PostEnv \<Rightarrow> Driver \<Rightarrow> Rect \<Rightarrow> Vertex list \<Rightarrow> nat \<Rightarrow> DrawCommand \<Rightarrow> draw_state
     \<Rightarrow> (panic \<times> Renderer) + (bool \<times> draw_state)" where
  "drawCallback env d viewport vs i cmd st =
     (case st of (err, r, indices) \<Rightarrow>
       if ElemCount cmd = 0 then Inr (True, err, r, indices)
       else
         (let clipRect = toSDLRect (ClipRect cmd);
              clipRect = (if clampClipRect d then clampClip viewport clipRect else clipRect)
          in case SetClipRect (SetClipRect_err env i) r (Some clipRect) of (err1, r1) \<Rightarrow>
            (case err1 of
               Some e \<Rightarrow>
                 Inr (False, Some (Errorf ''setting renderer clip rectangle'' (Some e)), r1, indices)
             | None \<Rightarrow>
                 if length indices < unat (ElemCount cmd) then Inl (SliceBoundsOutOfRange, r1)
                 else
                   (case RenderGeometry (RenderGeometry_err env i) r1 (Texture cmd) vs
                           (take (unat (ElemCount cmd)) indices) of (err2, r2) \<Rightarrow>
                     (case err2 of
                        Some e \<Rightarrow>
                          Inr (False, Some (Errorf ''rendering raw geometry'' (Some e)), r2, indices)
                      | None \<Rightarrow> Inr (True, None, r2, drop (unat (ElemCount cmd)) indices))))))"

text \<open>\<open>DrawForEach\<close>: the closure on each command in order, until it answers false.\<close>

fun DrawForEach ::
  "PostEnv \<Rightarrow> Driver \<Rightarrow> Rect \<Rightarrow> Vertex list \<Rightarrow> nat \<Rightarrow> DrawCommand list \<Rightarrow> draw_state
     \<Rightarrow> (panic \<times> Renderer) + draw_state" where
  "DrawForEach env d viewport vs i [] st = Inr st"
| "DrawForEach env d viewport vs i (cmd # cmds) st =
     (case drawCallback env d viewport vs i cmd st of
        Inl p \<Rightarrow> Inl p
      | Inr (continue, st') \<Rightarrow>
          if continue then DrawForEach env d viewport vs (i + 1) cmds st' else Inr st')"

datatype go_result = Returned "error option" | Panicked panic

text \<open>\<open>PostRender\<close> from the conversion of the draw commands to the last statement.\<close>

definition PostRender_body :: "PostEnv \<Rightarrow> Driver \<Rightarrow> Renderer \<Rightarrow> go_result \<times> Renderer" where
  "PostRender_body env d r =
     (case Convert_err env of
        Some e \<Rightarrow> (Returned (Some (Errorf ''converting render commands'' (Some e))), r)
      | None \<Rightarrow>
          (let oldClipRect = GetClipRect r;
               viewport = GetViewport r;
               indices = Convert_elements env;
               vs = Convert_vertices env
           in case DrawForEach env d viewport vs 0 (Convert_commands env) (None, r, indices) of
                Inl (p, r1) \<Rightarrow> (Panicked p, r1)
              | Inr (err, r1, rest) \<Rightarrow>
                  (case err of
                     Some e \<Rightarrow> (Returned (Some (Errorf ''error in context.DrawForEach'' (Some e))), r1)
                   | None \<Rightarrow>
                       (case SetClipRect (restoreClipRect_err env) r1 (Some oldClipRect) of
                          (err1, r2) \<Rightarrow>
                            (case err1 of
                               Some e \<Rightarrow> (Returned (Some (Errorf ''restoring clip rect'' (Some e))), r2)
                             | None \<Rightarrow> (Returned None, Present r2))))))"

text \<open>
  \<open>PostRender\<close>: the scale is read and set; once that has succeeded the deferred
  function is registered, so it runs after the body however the body ends.
\<close>

definition PostRender :: "PostEnv \<Rightarrow> Driver \<Rightarrow> Renderer \<Rightarrow> go_result \<times> Renderer" where
  "PostRender env d r =
     (case GetScale r of (scaleX, scaleY) \<Rightarrow>
       (case SetScale (SetScale_err env) r (uiScale d) (uiScale d) of (err0, r0) \<Rightarrow>
         (case err0 of
            Some e \<Rightarrow> (Returned (Some (Errorf ''setting renderer scale'' (Some e))), r0)
          | None \<Rightarrow>
              (case PostRender_body env d r0 of (res, r1) \<Rightarrow>
                (case SetScale (restoreScale_err env) r1 scaleX scaleY of (err2, r2) \<Rightarrow>
                  (case res of
                     Panicked p \<Rightarrow> (Panicked p, r2)
                   | Returned err \<Rightarrow>
                       (if err2 \<noteq> None \<and> err = None
                        then (Returned (Some (Errorf ''restoring renderer scale'' err)), r2)
                        else (Returned err, r2))))))))"



section \<open>Auxiliary functions for the statements about PreRender\<close>

text \<open>
  The context after \<open>HandleEvent\<close> has translated every event of a queue in order,
  and what the listener answers when it is called for each of them.
\<close>

definition translateAll :: "EventHandler \<Rightarrow> nk_Context \<Rightarrow> Event list \<Rightarrow> nk_Context" where
  "translateAll h nkc queue = foldl (\<lambda>c event. fst (HandleEvent h c event)) nkc queue"

fun listenerAnswers ::
  "EventHandler \<Rightarrow> EventListener \<Rightarrow> Event list \<Rightarrow> nk_Context \<Rightarrow> Event list \<Rightarrow> error option list" where
  "listenerAnswers h listener seen nkc [] = []"
| "listenerAnswers h listener seen nkc (event # queue) =
     (case HandleEvent h nkc event of (nkc', eventType, usedByNuklear) \<Rightarrow>
        listener (seen @ [event]) eventType usedByNuklear
          # listenerAnswers h listener (seen @ [event]) nkc' queue)"

section \<open>Auxiliary functions for the statements about PostRender\<close>

text \<open>
  The clip rectangle the closure computes for a command, and the draw calls a run over a
  command list makes when nothing fails: none for a command with no elements, one from
  the front of the remaining indices for every other command.
\<close>

definition commandClip :: "Driver \<Rightarrow> Rect \<Rightarrow> DrawCommand \<Rightarrow> Rect" where
  "commandClip d viewport cmd =
     (if clampClipRect d then clampClip viewport (toSDLRect (ClipRect cmd))
      else toSDLRect (ClipRect cmd))"

fun geometryCalls :: "Vertex list \<Rightarrow> 32 word list \<Rightarrow> DrawCommand list \<Rightarrow> render_call list" where
  "geometryCalls vs indices [] = []"
| "geometryCalls vs indices (cmd # cmds) =
     (if ElemCount cmd = 0 then geometryCalls vs indices cmds
      else Call_RenderGeometry (Texture cmd) vs (take (unat (ElemCount cmd)) indices)
             # geometryCalls vs (drop (unat (ElemCount cmd)) indices) cmds)"

fun isGeometry :: "render_call \<Rightarrow> bool" where
  "isGeometry (Call_RenderGeometry tex vs idx) = True"
| "isGeometry c = False"

definition totalElems :: "DrawCommand list \<Rightarrow> nat" where
  "totalElems cmds = sum_list (map (\<lambda>cmd. unat (ElemCount cmd)) cmds)"

section \<open>Inputs for the examples\<close>

text \<open>
  An environment in which every library call succeeds, a renderer as SDL creates it
  (scale 1, clipping disabled, an 800 by 600 viewport), a driver with no bindings, a
  listener that answers nil to every event, one that answers ErrQuit to a quit event,
  and an answer given at every call site, for
  the concrete instances below.
\<close>

definition okLibEnv :: LibEnv where
  "okLibEnv =
     \<lparr>InitSDL_result = None,
      CreateWindow_result = (Some 1, None),
      CreateRenderer_result = (Some 2, None),
      GetInfo_result = (''opengl'', None),
      GetVersion_result = (2, 0, 20),
      CreateContext_result = (Some 3, None),
      CreateFontAtlas_result = (Some 4, None),
      CreateFont_result = (Some 5, None),
      CreateLargeFont_result = (Some 6, None),
      Bake_image_nil = False,
      CreateTexture_result = (Some 7, None),
      TextureUpdate_result = None,
      SetBlendMode_result = None,
      AtlasEnd_result = 1,
      CreateConvertConfig_result = Some 8,
      NewBuffer_results = (Some 9, Some 10, Some 11),
      fontTexDestroy_result = None,
      rendererDestroy_result = None,
      windowDestroy_result = None\<rparr>"

definition plainDriver :: Driver where
  "plainDriver = zeroDriver (EventHandler Map.empty) None"

definition freshRenderer :: Renderer where
  "freshRenderer =
     \<lparr>r_scale = (Finite 1, Finite 1), r_clip = None,
      r_viewport = \<lparr>X = 0, Y = 0, W = 800, H = 600\<rparr>,
      r_color = Color 0 0 0 255, r_calls = []\<rparr>"

definition silentListener :: EventListener where
  "silentListener seen eventType usedByNuklear = None"

definition quittingListener :: EventListener where
  "quittingListener seen eventType usedByNuklear =
     (if eventType = EventTypeQuit then Some ErrQuit else None)"

definition every_time :: "error option \<Rightarrow> nat \<Rightarrow> error option" where
  "every_time answer i = answer"

definition okPreEnv :: PreEnv where
  "okPreEnv =
     \<lparr>GetDrawColor_err = None, SetDrawColor_err = None, Clear_err = None,
      restoreDrawColor_err = None\<rparr>"

definition okPostEnv :: "DrawCommand list \<Rightarrow> 32 word list \<Rightarrow> PostEnv" where
  "okPostEnv cmds idx =
     \<lparr>SetScale_err = None, Convert_err = None,
      Convert_commands = cmds, Convert_elements = idx, Convert_vertices = [],
      SetClipRect_err = every_time None, RenderGeometry_err = every_time None,
      restoreClipRect_err = None, restoreScale_err = None\<rparr>"

definition exact_f32_ops :: f32_ops where
  "exact_f32_ops =
     \<lparr>of_int32 = (\<lambda>n. Finite (real_of_int (sint n))),
      fdiv = (\<lambda>a b. case (a, b) of
                (Finite x, Finite y) \<Rightarrow> if y = 0 then NaN else Finite (x / y)
              | _ \<Rightarrow> NaN)\<rparr>"

section \<open>Properties of the binding table\<close>

text \<open>
  Every binding an expansion produces keeps the key code and the action of the entry it
  comes from; only the modifier changes.
\<close>

lemma expandModBinding_loop_origin:
  "originalLen \<le> length bs \<Longrightarrow>
   \<forall>b \<in> set bs. Code (input b) = c \<and> action b = a \<Longrightarrow>
   \<forall>b \<in> set (expandModBinding_loop i originalLen bs both left right).
      Code (input b) = c \<and> action b = a"
proof (induction i originalLen bs both left right rule: expandModBinding_loop.induct)
  case (1 i originalLen bs both left right)
  show ?case
  proof (cases "i < originalLen")
    case False
    then show ?thesis using "1.prems" by (subst expandModBinding_loop.simps) simp
  next
    case True
    then have mem: "bs ! i \<in> set bs" using "1.prems"(1) by simp
    show ?thesis
    proof (cases "Mod (input (bs ! i)) AND both \<noteq> both")
      case skip: True
      have "\<forall>b\<in>set (expandModBinding_loop (i + 1) originalLen bs both left right).
              Code (input b) = c \<and> action b = a"
        using "1.IH"(1) [OF True refl refl skip "1.prems"] .
      then show ?thesis using True skip
        by (subst expandModBinding_loop.simps) (simp add: Let_def)
    next
      case expand: False
      define leftMod where "leftMod = (Mod (input (bs ! i)) AND NOT both) OR left"
      define leftInput where "leftInput = (input (bs ! i))\<lparr>Mod := leftMod\<rparr>"
      define bs1 where "bs1 = bs[i := \<lparr>input = leftInput, action = action (bs ! i)\<rparr>]"
      define rightMod where "rightMod = (Mod (input (bs ! i)) AND NOT both) OR right"
      define rightInput where "rightInput = (input (bs ! i))\<lparr>Mod := rightMod\<rparr>"
      define bs2 where "bs2 = bs1 @ [\<lparr>input = rightInput, action = action (bs ! i)\<rparr>]"
      have len: "originalLen \<le> length bs2"
        using "1.prems"(1) by (simp add: bs2_def bs1_def)
      have sub: "set bs1 \<subseteq> insert \<lparr>input = leftInput, action = action (bs ! i)\<rparr> (set bs)"
        unfolding bs1_def by (rule set_update_subset_insert)
      have all: "\<forall>b \<in> set bs2. Code (input b) = c \<and> action b = a"
      proof
        fix b assume "b \<in> set bs2"
        then have "b \<in> set bs1 \<or> b = \<lparr>input = rightInput, action = action (bs ! i)\<rparr>"
          by (auto simp: bs2_def)
        then consider "b \<in> set bs" | "b = \<lparr>input = leftInput, action = action (bs ! i)\<rparr>"
          | "b = \<lparr>input = rightInput, action = action (bs ! i)\<rparr>"
          using sub by blast
        then show "Code (input b) = c \<and> action b = a"
        proof cases
          case 1
          then show ?thesis using "1.prems"(2) by blast
        next
          case 2
          then show ?thesis using "1.prems"(2) mem by (simp add: leftInput_def)
        next
          case 3
          then show ?thesis using "1.prems"(2) mem by (simp add: rightInput_def)
        qed
      qed
      have "\<forall>b\<in>set (expandModBinding_loop (i + 1) originalLen bs2 both left right).
              Code (input b) = c \<and> action b = a"
        using "1.IH"(2) [OF True refl refl expand leftMod_def leftInput_def bs1_def rightMod_def
            rightInput_def bs2_def len all] .
      moreover have "expandModBinding_loop i originalLen bs both left right =
          expandModBinding_loop (i + 1) originalLen bs2 both left right"
        unfolding bs2_def bs1_def leftInput_def rightInput_def leftMod_def rightMod_def
        by (subst expandModBinding_loop.simps [of i]) (simp only: True expand if_True if_False Let_def)
      ultimately show ?thesis by simp
    qed
  qed
qed

lemma expandModBinding_origin:
  "\<forall>b \<in> set bs. Code (input b) = c \<and> action b = a \<Longrightarrow>
   \<forall>b \<in> set (expandModBinding bs both left right). Code (input b) = c \<and> action b = a"
  unfolding expandModBinding_def by (rule expandModBinding_loop_origin) simp_all

lemma expandOne_origin:
  "\<forall>b \<in> set (expandOne inp act). Code (input b) = Code inp \<and> action b = act"
  unfolding expandOne_def Let_def
  by (intro expandModBinding_origin) simp

lemma writeBindings_origin:
  "writeBindings src inp dst bs = Inr dst' \<Longrightarrow> dst' k = Some a \<Longrightarrow>
   dst k = Some a \<or> (\<exists>b \<in> set bs. input b = k \<and> action b = a)"
proof (induction bs arbitrary: dst)
  case Nil
  then show ?case by simp
next
  case (Cons b bs)
  from Cons.prems(1) have step: "writeBindings src inp (dst(input b \<mapsto> action b)) bs = Inr dst'"
    by (auto split: option.splits if_splits)
  from Cons.IH [OF step Cons.prems(2)] show ?case
    by (auto split: if_splits)
qed

lemma expandModBindings_origin:
  "expandModBindings dst order src = Inr dst' \<Longrightarrow> dst' k = Some a \<Longrightarrow>
   dst k = Some a \<or> (\<exists>e \<in> set order. Code (fst e) = Code k \<and> snd e = a)"
proof (induction order arbitrary: dst)
  case Nil
  then show ?case by simp
next
  case (Cons e order)
  obtain inp act where e: "e = (inp, act)" by (cases e)
  from Cons.prems(1) e obtain dst1 where
    w: "writeBindings src inp dst (expandOne inp act) = Inr dst1" and
    r: "expandModBindings dst1 order src = Inr dst'"
    by (auto split: sum.splits)
  from Cons.IH [OF r Cons.prems(2)] show ?case
  proof
    assume "dst1 k = Some a"
    from writeBindings_origin [OF w this] show ?thesis
      using expandOne_origin [of inp act] e by fastforce
  next
    assume "\<exists>e\<in>set order. Code (fst e) = Code k \<and> snd e = a"
    then show ?thesis by auto
  qed
qed

lemma DefaultBindings_PAGEDOWN:
  "e \<in> set DefaultBindings \<Longrightarrow> Code (fst e) = K_PAGEDOWN \<Longrightarrow> Key1 (snd e) = KeyNone"
  by (auto simp: DefaultBindings_def ki_def ka_def K_defs)

text \<open>
  The default bindings expand to keys that are all different, so no iteration order makes
  \<open>NewEventHandler\<close> panic on them.
\<close>

lemma DefaultBindings_expansions_distinct:
  "list_all (\<lambda>e. distinct (expansionKeys e)) DefaultBindings"
  by code_simp

lemma DefaultBindings_expansions_disjoint:
  "list_all (\<lambda>e1. list_all (\<lambda>e2. e1 = e2 \<or> list_all (\<lambda>k. k \<notin> set (expansionKeys e2)) (expansionKeys e1)) DefaultBindings) DefaultBindings"
  by code_simp

lemma writeBindings_fresh:
  "distinct (map input bs) \<Longrightarrow> dom dst \<inter> input ` set bs = {} \<Longrightarrow>
   \<exists>dst'. writeBindings src inp dst bs = Inr dst' \<and> dom dst' = dom dst \<union> input ` set bs"
proof (induction bs arbitrary: dst)
  case Nil
  then show ?case by simp
next
  case (Cons b bs)
  have none: "dst (input b) = None" using Cons.prems(2) by auto
  have "dom (dst(input b \<mapsto> action b)) \<inter> input ` set bs = {}"
    using Cons.prems by auto
  moreover have "distinct (map input bs)" using Cons.prems(1) by simp
  ultimately have "\<exists>dst'. writeBindings src inp (dst(input b \<mapsto> action b)) bs = Inr dst' \<and>
      dom dst' = dom (dst(input b \<mapsto> action b)) \<union> input ` set bs"
    by (intro Cons.IH)
  then obtain dst' where "writeBindings src inp (dst(input b \<mapsto> action b)) bs = Inr dst'"
    and "dom dst' = dom (dst(input b \<mapsto> action b)) \<union> input ` set bs"
    by blast
  then show ?case using none by auto
qed

lemma expandModBindings_fresh:
  "distinct order \<Longrightarrow>
   \<forall>e \<in> set order. distinct (expansionKeys e) \<Longrightarrow>
   \<forall>e1 \<in> set order. \<forall>e2 \<in> set order. e1 \<noteq> e2 \<longrightarrow> set (expansionKeys e1) \<inter> set (expansionKeys e2) = {} \<Longrightarrow>
   \<forall>e \<in> set order. dom dst \<inter> set (expansionKeys e) = {} \<Longrightarrow>
   \<exists>dst'. expandModBindings dst order src = Inr dst'"
proof (induction order arbitrary: dst)
  case Nil
  then show ?case by simp
next
  case (Cons e order)
  obtain inp act where e: "e = (inp, act)" by (cases e)
  have d: "distinct (map input (expandOne inp act))"
    using Cons.prems(2) e by (simp add: expansionKeys_def)
  have f: "dom dst \<inter> input ` set (expandOne inp act) = {}"
    using Cons.prems(4) e by (simp add: expansionKeys_def)
  from writeBindings_fresh [OF d f, of src inp] obtain dst1 where
    w: "writeBindings src inp dst (expandOne inp act) = Inr dst1" and
    dm: "dom dst1 = dom dst \<union> set (expansionKeys e)"
    by (auto simp: expansionKeys_def e)
  have "\<forall>e' \<in> set order. dom dst1 \<inter> set (expansionKeys e') = {}"
  proof
    fix e' assume m: "e' \<in> set order"
    then have "e \<noteq> e'" using Cons.prems(1) by auto
    then have "set (expansionKeys e) \<inter> set (expansionKeys e') = {}"
      using Cons.prems(3) m by simp
    moreover have "dom dst \<inter> set (expansionKeys e') = {}"
      using Cons.prems(4) m by simp
    ultimately show "dom dst1 \<inter> set (expansionKeys e') = {}"
      unfolding dm by blast
  qed
  moreover have "distinct order" using Cons.prems(1) by simp
  moreover have "\<forall>e \<in> set order. distinct (expansionKeys e)" using Cons.prems(2) by simp
  moreover have "\<forall>e1 \<in> set order. \<forall>e2 \<in> set order. e1 \<noteq> e2 \<longrightarrow>
      set (expansionKeys e1) \<inter> set (expansionKeys e2) = {}" using Cons.prems(3) by simp
  ultimately have "\<exists>dst'. expandModBindings dst1 order src = Inr dst'"
    by (intro Cons.IH)
  then obtain dst' where "expandModBindings dst1 order src = Inr dst'" by blast
  then show ?case using w e by simp
qed

lemma NewEventHandler_DefaultBindings_no_panic:
  assumes "distinct order" and "set order = set DefaultBindings"
  shows "\<exists>h. NewEventHandler order = Inr h"
proof -
  have 1: "\<forall>e \<in> set order. distinct (expansionKeys e)"
    using DefaultBindings_expansions_distinct assms(2) by (simp add: list_all_iff)
  have 2: "\<forall>e1 \<in> set order. \<forall>e2 \<in> set order. e1 \<noteq> e2 \<longrightarrow>
             set (expansionKeys e1) \<inter> set (expansionKeys e2) = {}"
  proof (intro ballI impI)
    fix e1 e2 assume m: "e1 \<in> set order" "e2 \<in> set order" and ne: "e1 \<noteq> e2"
    have "\<forall>e1 \<in> set DefaultBindings. \<forall>e2 \<in> set DefaultBindings.
            e1 = e2 \<or> (\<forall>k \<in> set (expansionKeys e1). k \<notin> set (expansionKeys e2))"
      using DefaultBindings_expansions_disjoint by (simp add: list_all_iff)
    then have "\<forall>k \<in> set (expansionKeys e1). k \<notin> set (expansionKeys e2)"
      using m ne assms(2) by blast
    then show "set (expansionKeys e1) \<inter> set (expansionKeys e2) = {}" by blast
  qed
  have 3: "\<forall>e \<in> set order. dom (Map.empty :: bindings_map) \<inter> set (expansionKeys e) = {}"
    by simp
  from expandModBindings_fresh [OF assms(1) 1 2 3, of "map_of order"]
  show ?thesis by (auto simp: NewEventHandler_def)
qed

lemma DefaultBindings_PAGEDOWN_entry:
  "(case NewEventHandler DefaultBindings of
      Inl p \<Rightarrow> False
    | Inr h \<Rightarrow> map_index (bindings h) \<lparr>Code = K_PAGEDOWN, Mod = 0\<rparr> = ka KeyNone KeyScrollDown)"
  by code_simp

text \<open>
  C10. A keyboard event whose (key code, modifier) pair maps to an action with first key
  \<open>KeyNone\<close>, or is not bound at all, makes \<open>HandleEvent\<close> emit no key signal, whatever the
  second key is, and report a key event that was not used. The handler built from the
  default bindings, in whatever order the map is visited, exists and emits nothing for
  PageDown under any modifier: that entry sets only the second key.
\<close>

theorem HandleEvent_no_first_key_emits_nothing:
  "(Key1 (map_index (bindings h) (KeysymInput keysym)) = KeyNone \<longrightarrow>
      HandleEvent h nkc (KeyboardEvent st keysym) = (nkc, EventTypeInputKey, False))
   \<and> (bindings h (KeysymInput keysym) = None \<longrightarrow>
      HandleEvent h nkc (KeyboardEvent st keysym) = (nkc, EventTypeInputKey, False))
   \<and> (distinct order \<and> set order = set DefaultBindings \<longrightarrow>
      (\<exists>h'. NewEventHandler order = Inr h' \<and>
         (\<forall>sc m. HandleEvent h' nkc (KeyboardEvent st \<lparr>Scancode = sc, Sym = K_PAGEDOWN, SymMod = m\<rparr>)
            = (nkc, EventTypeInputKey, False))))"
proof (intro conjI impI)
  assume "Key1 (map_index (bindings h) (KeysymInput keysym)) = KeyNone"
  then show "HandleEvent h nkc (KeyboardEvent st keysym) = (nkc, EventTypeInputKey, False)"
    by (simp add: Let_def)
next
  assume "bindings h (KeysymInput keysym) = None"
  then show "HandleEvent h nkc (KeyboardEvent st keysym) = (nkc, EventTypeInputKey, False)"
    by (simp add: Let_def map_index_def zeroKeyAction_def)
next
  assume a: "distinct order \<and> set order = set DefaultBindings"
  then obtain h' where h': "NewEventHandler order = Inr h'"
    using NewEventHandler_DefaultBindings_no_panic by blast
  then have ex: "expandModBindings Map.empty order (map_of order) = Inr (bindings h')"
    by (auto simp: NewEventHandler_def split: sum.splits)
  have "Key1 (map_index (bindings h') \<lparr>Code = K_PAGEDOWN, Mod = m\<rparr>) = KeyNone" for m
  proof (cases "bindings h' \<lparr>Code = K_PAGEDOWN, Mod = m\<rparr>")
    case None
    then show ?thesis by (simp add: map_index_def zeroKeyAction_def)
  next
    case (Some act)
    from expandModBindings_origin [OF ex Some]
    obtain e where e: "e \<in> set order" "Code (fst e) = K_PAGEDOWN" "snd e = act" by auto
    then have "e \<in> set DefaultBindings" using a by simp
    from DefaultBindings_PAGEDOWN [OF this e(2)] e(3) have "Key1 act = KeyNone" by simp
    then show ?thesis using Some by (simp add: map_index_def)
  qed
  then have "HandleEvent h' nkc (KeyboardEvent st \<lparr>Scancode = sc, Sym = K_PAGEDOWN, SymMod = m\<rparr>)
      = (nkc, EventTypeInputKey, False)" for sc m
    by (simp add: Let_def KeysymInput_def)
  with h' show "\<exists>h'. NewEventHandler order = Inr h' \<and>
         (\<forall>sc m. HandleEvent h' nkc (KeyboardEvent st \<lparr>Scancode = sc, Sym = K_PAGEDOWN, SymMod = m\<rparr>)
            = (nkc, EventTypeInputKey, False))"
    by blast
qed

theorem HandleEvent_no_first_key_emits_nothing_witness:
  "(\<exists>h. NewEventHandler DefaultBindings = Inr h
      \<and> map_index (bindings h) (KeysymInput \<lparr>Scancode = 78, Sym = K_PAGEDOWN, SymMod = 0\<rparr>)
          = \<lparr>Key1 = KeyNone, Key2 = KeyScrollDown\<rparr>
      \<and> HandleEvent h [InputBegin] (KeyboardEvent PRESSED \<lparr>Scancode = 78, Sym = K_PAGEDOWN, SymMod = 0\<rparr>)
          = ([InputBegin], EventTypeInputKey, False))
   \<and> bindings (EventHandler Map.empty) (KeysymInput \<lparr>Scancode = 4, Sym = K_a, SymMod = 0\<rparr>) = None
   \<and> HandleEvent (EventHandler Map.empty) [InputBegin]
         (KeyboardEvent PRESSED \<lparr>Scancode = 4, Sym = K_a, SymMod = 0\<rparr>)
       = ([InputBegin], EventTypeInputKey, False)"
proof -
  note t = HandleEvent_no_first_key_emits_nothing
  have d: "distinct DefaultBindings \<and> set DefaultBindings = set DefaultBindings"
    by (simp add: DefaultBindings_def ki_def ka_def K_defs KMOD_defs)
  with t [of _ _ "[InputBegin]" PRESSED DefaultBindings]
  obtain h where h: "NewEventHandler DefaultBindings = Inr h"
    and e: "\<forall>sc m. HandleEvent h [InputBegin]
              (KeyboardEvent PRESSED \<lparr>Scancode = sc, Sym = K_PAGEDOWN, SymMod = m\<rparr>)
            = ([InputBegin], EventTypeInputKey, False)"
    by blast
  have k: "map_index (bindings h) (KeysymInput \<lparr>Scancode = 78, Sym = K_PAGEDOWN, SymMod = 0\<rparr>)
      = \<lparr>Key1 = KeyNone, Key2 = KeyScrollDown\<rparr>"
    using DefaultBindings_PAGEDOWN_entry h by (simp add: KeysymInput_def ka_def)
  have 1: "\<exists>h. NewEventHandler DefaultBindings = Inr h
      \<and> map_index (bindings h) (KeysymInput \<lparr>Scancode = 78, Sym = K_PAGEDOWN, SymMod = 0\<rparr>)
          = \<lparr>Key1 = KeyNone, Key2 = KeyScrollDown\<rparr>
      \<and> HandleEvent h [InputBegin] (KeyboardEvent PRESSED \<lparr>Scancode = 78, Sym = K_PAGEDOWN, SymMod = 0\<rparr>)
          = ([InputBegin], EventTypeInputKey, False)"
    using h k e by blast
  have n: "bindings (EventHandler Map.empty) (KeysymInput \<lparr>Scancode = 4, Sym = K_a, SymMod = 0\<rparr>) = None"
    by simp
  with t [of "EventHandler Map.empty" "\<lparr>Scancode = 4, Sym = K_a, SymMod = 0\<rparr>" "[InputBegin]" PRESSED]
  have 2: "HandleEvent (EventHandler Map.empty) [InputBegin]
         (KeyboardEvent PRESSED \<lparr>Scancode = 4, Sym = K_a, SymMod = 0\<rparr>)
       = ([InputBegin], EventTypeInputKey, False)"
    by blast
  from 1 n 2 show ?thesis by blast
qed

lemma NewEventHandler_conflict_eval:
  "(case NewEventHandler [(ki K_c KMOD_LCTRL, ka KeyCut KeyNone), (ki K_c KMOD_CTRL, ka KeyCopy KeyNone)] of
      Inl p \<Rightarrow> False
    | Inr h \<Rightarrow> bindings h (ki K_c KMOD_LCTRL) = Some (ka KeyCopy KeyNone)
        \<and> bindings h (ki K_c KMOD_RCTRL) = Some (ka KeyCopy KeyNone))"
  by code_simp

lemma NewEventHandler_conflict_other_order:
  "(case NewEventHandler [(ki K_c KMOD_CTRL, ka KeyCopy KeyNone), (ki K_c KMOD_LCTRL, ka KeyCut KeyNone)] of
      Inl p \<Rightarrow> p = ConflictingBinding (ki K_c KMOD_LCTRL)
    | Inr h \<Rightarrow> False)"
  by code_simp

text \<open>
  C3. The table binds Ctrl+C to Copy and LCtrl+C to Cut, so the expansion of Ctrl+C gives
  LCtrl+C a second, different action. When the map is visited with the LCtrl+C entry
  first, \<open>NewEventHandler\<close> does not panic: it returns a handler in which Copy has
  replaced Cut. (Visited in the other order the same table panics.)
\<close>

theorem NewEventHandler_conflict_not_detected:
  "\<exists>h. NewEventHandler
          [(ki K_c KMOD_LCTRL, ka KeyCut KeyNone), (ki K_c KMOD_CTRL, ka KeyCopy KeyNone)] = Inr h
     \<and> bindings h (ki K_c KMOD_LCTRL) = Some (ka KeyCopy KeyNone)
     \<and> bindings h (ki K_c KMOD_RCTRL) = Some (ka KeyCopy KeyNone)"
  using NewEventHandler_conflict_eval
  by (cases "NewEventHandler
          [(ki K_c KMOD_LCTRL, ka KeyCut KeyNone), (ki K_c KMOD_CTRL, ka KeyCopy KeyNone)]") auto

section \<open>Properties of Init and Destroy\<close>

lemmas step_defs =
  step_InitSDL_def step_CreateWindow_def step_CreateRenderer_def step_GetInfo_def
  step_CreateContext_def step_CreateFontAtlas_def step_CreateFont_def step_CreateLargeFont_def
  step_bakeFont_def step_finish_def

text \<open>
  An early return of \<open>Init\<close> leaves the local \<open>err\<close> set, so that the deferred function
  runs \<open>Destroy\<close>, in every step but the renderer-info step.
\<close>

lemma run_steps_err:
  "run_steps Init_steps env st = Inl (ret, err, d', tr) \<Longrightarrow>
   err \<noteq> None \<or> (\<exists>e. ret = Errorf ''getting SDL renderer info'' (Some e))"
  by (auto simp: Init_steps_def step_defs Let_def
      split: sum.splits option.splits prod.splits if_splits)

lemma Init_failure_teardown:
  assumes "Init env d = (Some ret, d', tr)"
    and "\<forall>e. ret \<noteq> Errorf ''getting SDL renderer info'' (Some e)"
  shows "\<exists>tr0. tr = tr0 @ snd (Destroy env d')"
proof (cases "run_steps Init_steps env (d, [])")
  case (Inl x)
  obtain ret0 err d0 tr0 where x: "x = (ret0, err, d0, tr0)" by (cases x)
  from run_steps_err [OF Inl [unfolded x]] assms Inl x show ?thesis
    by (auto simp: Init_def split: if_splits)
next
  case (Inr y)
  then show ?thesis using assms(1) by (auto simp: Init_def split: prod.splits)
qed

text \<open>When every call succeeds, \<open>Init\<close> returns nil with every resource in place.\<close>

lemma Init_succeeds_example:
  "Init okLibEnv plainDriver =
     (None,
      plainDriver
        \<lparr>window := Some 1, renderer := Some 2, fontTex := Some 7, nkContext := Some 3,
         atlas := Some 4, font := Some 5, largeFont := Some 6, nullTex := 1,
         convertConf := Some 8, commands := Some 9, elements := Some 10, vertices := Some 11\<rparr>,
      [Call_InitSDL, Call_CreateWindow, Call_CreateRenderer (Some 1), Call_GetInfo (Some 2),
       Call_CreateContext, Call_CreateFontAtlas, Call_CreateFont (Some 4) (Finite 1),
       Call_CreateFont (Some 4) (Finite 2), Call_Bake (Some 4), Call_CreateTexture (Some 2),
       Call_TextureUpdate (Some 7), Call_SetBlendMode (Some 7),
       Call_ScaleHeight (Some 5) (Finite 1), Call_AtlasEnd (Some 4) (Some 7),
       Call_AtlasCleanup (Some 4), Call_ScaleHeight (Some 6) (Finite 2),
       Call_CreateConvertConfig 1, Call_NewBuffer, Call_NewBuffer, Call_NewBuffer])"
  by (simp add: Init_def Init_steps_def step_defs bakeFont_def Let_def okLibEnv_def
      plainDriver_def zeroDriver_def)

text \<open>
  C4. When SDL is initialised and the window and the renderer are created, and the
  renderer-info step then fails, \<open>Init\<close> returns that error wrapped with the step's
  name, keeps the window and the renderer in the driver, and makes no further call: the
  teardown does not run (its last call would be \<open>sdl.Quit\<close>).
\<close>

theorem Init_GetInfo_failure_skips_Destroy:
  "InitSDL_result env = None \<Longrightarrow>
   CreateWindow_result env = (w, None) \<Longrightarrow>
   CreateRenderer_result env = (r, None) \<Longrightarrow>
   GetInfo_result env = (name, Some e) \<Longrightarrow>
   Init env d =
     (Some (Errorf ''getting SDL renderer info'' (Some e)),
      d\<lparr>window := w, renderer := r\<rparr>,
      [Call_InitSDL, Call_CreateWindow, Call_CreateRenderer w, Call_GetInfo r])"
  by (simp add: Init_def Init_steps_def step_defs Let_def)

theorem Init_GetInfo_failure_skips_Destroy_witness:
  "Init (okLibEnv\<lparr>GetInfo_result := ([], Some (Error ''Invalid renderer''))\<rparr>) plainDriver =
     (Some (Errorf ''getting SDL renderer info'' (Some (Error ''Invalid renderer''))),
      plainDriver\<lparr>window := Some 1, renderer := Some 2\<rparr>,
      [Call_InitSDL, Call_CreateWindow, Call_CreateRenderer (Some 1), Call_GetInfo (Some 2)])
   \<and> Call_Quit \<notin> set [Call_InitSDL, Call_CreateWindow, Call_CreateRenderer (Some 1),
                         Call_GetInfo (Some 2)]"
  using Init_GetInfo_failure_skips_Destroy
    [of "okLibEnv\<lparr>GetInfo_result := ([], Some (Error ''Invalid renderer''))\<rparr>"
        "Some 1" "Some 2" "[]" "Error ''Invalid renderer''" plainDriver]
  by (simp add: okLibEnv_def)

text \<open>
  C5. For every driver, whatever subset of its fields is populated, and whatever the
  three SDL releases answer, \<open>Destroy\<close> returns: it makes the six nil-safe \<open>Free\<close>
  calls, destroys the font texture, the renderer and the window, each exactly when the
  field is not nil and even after an earlier release has failed, and ends with
  \<open>sdl.Quit\<close>. It returns the error of the first release that failed, in the order the
  releases run, and nil when none did.
\<close>

theorem Destroy_releases_everything:
  "Destroy env d =
     ((case (if fontTex d = None then None else fontTexDestroy_result env) of
         Some e \<Rightarrow> Some e
       | None \<Rightarrow>
           (case (if renderer d = None then None else rendererDestroy_result env) of
              Some e \<Rightarrow> Some e
            | None \<Rightarrow> (if window d = None then None else windowDestroy_result env))),
      [Call_BufferFree (vertices d), Call_BufferFree (elements d), Call_BufferFree (commands d),
       Call_ConvertConfigFree (convertConf d), Call_AtlasFree (atlas d),
       Call_ContextFree (nkContext d)]
      @ (case fontTex d of None \<Rightarrow> [] | Some p \<Rightarrow> [Call_TextureDestroy p])
      @ (case renderer d of None \<Rightarrow> [] | Some p \<Rightarrow> [Call_RendererDestroy p])
      @ (case window d of None \<Rightarrow> [] | Some p \<Rightarrow> [Call_WindowDestroy p])
      @ [Call_Quit])"
  by (simp add: Destroy_def releaseSDL_def Let_def split: option.splits)

text \<open>
  The instance: \<open>Init\<close> fails when the Nuklear context is created, with the window and
  the renderer populated and everything else nil; the renderer's release fails too.
\<close>

theorem Destroy_releases_everything_witness:
  "Destroy (okLibEnv\<lparr>rendererDestroy_result := Some (Error ''lost'')\<rparr>)
       (plainDriver\<lparr>window := Some 1, renderer := Some 2\<rparr>) =
     (Some (Error ''lost''),
      [Call_BufferFree None, Call_BufferFree None, Call_BufferFree None,
       Call_ConvertConfigFree None, Call_AtlasFree None, Call_ContextFree None,
       Call_RendererDestroy 2, Call_WindowDestroy 1, Call_Quit])
   \<and> fst (snd (Init (okLibEnv\<lparr>CreateContext_result := (None, Some (Error ''no memory'')),
                               rendererDestroy_result := Some (Error ''lost'')\<rparr>) plainDriver))
       = plainDriver\<lparr>window := Some 1, renderer := Some 2\<rparr>"
proof -
  have "Destroy (okLibEnv\<lparr>rendererDestroy_result := Some (Error ''lost'')\<rparr>)
       (plainDriver\<lparr>window := Some 1, renderer := Some 2\<rparr>) =
     (Some (Error ''lost''),
      [Call_BufferFree None, Call_BufferFree None, Call_BufferFree None,
       Call_ConvertConfigFree None, Call_AtlasFree None, Call_ContextFree None,
       Call_RendererDestroy 2, Call_WindowDestroy 1, Call_Quit])"
    using Destroy_releases_everything
      [of "okLibEnv\<lparr>rendererDestroy_result := Some (Error ''lost'')\<rparr>"
          "plainDriver\<lparr>window := Some 1, renderer := Some 2\<rparr>"]
    by (simp add: okLibEnv_def plainDriver_def zeroDriver_def)
  moreover have "fst (snd (Init (okLibEnv\<lparr>CreateContext_result := (None, Some (Error ''no memory'')),
                               rendererDestroy_result := Some (Error ''lost'')\<rparr>) plainDriver))
       = plainDriver\<lparr>window := Some 1, renderer := Some 2\<rparr>"
    by (simp add: Init_def Init_steps_def step_defs Let_def okLibEnv_def plainDriver_def
        zeroDriver_def VERSIONNUM_def)
  ultimately show ?thesis by simp
qed

section \<open>Properties of PreRender\<close>

lemma HandleEvent_Quit_iff:
  "fst (snd (HandleEvent h nkc event)) = EventTypeQuit \<longleftrightarrow> event = QuitEvent"
  by (cases event) (simp_all add: Let_def)

lemma pollEvents_no_listener:
  "eventListener d = None \<Longrightarrow>
   pollEvents d seen nkc alive queue =
     Inr (translateAll (eventHandler d) nkc queue, alive \<and> QuitEvent \<notin> set queue)"
proof (induction queue arbitrary: seen nkc alive)
  case Nil
  then show ?case by (simp add: translateAll_def)
next
  case (Cons event queue)
  obtain nkc' et used where h: "HandleEvent (eventHandler d) nkc event = (nkc', et, used)"
    by (cases "HandleEvent (eventHandler d) nkc event") auto
  have q: "et = EventTypeQuit \<longleftrightarrow> event = QuitEvent"
    using HandleEvent_Quit_iff [of "eventHandler d" nkc event] h by simp
  show ?case
    using Cons.prems Cons.IH [OF Cons.prems] h q
    by (auto simp: translateAll_def)
qed

lemma pollEvents_listener:
  "eventListener d = Some listener \<Longrightarrow>
   set (listenerAnswers (eventHandler d) listener seen nkc queue) \<subseteq> {None, Some ErrQuit} \<Longrightarrow>
   pollEvents d seen nkc alive queue =
     Inr (translateAll (eventHandler d) nkc queue,
          alive \<and> Some ErrQuit \<notin> set (listenerAnswers (eventHandler d) listener seen nkc queue))"
proof (induction queue arbitrary: seen nkc alive)
  case Nil
  then show ?case by (simp add: translateAll_def)
next
  case (Cons event queue)
  obtain nkc' et used where h: "HandleEvent (eventHandler d) nkc event = (nkc', et, used)"
    by (cases "HandleEvent (eventHandler d) nkc event") auto
  have sub: "set (listenerAnswers (eventHandler d) listener (seen @ [event]) nkc' queue)
      \<subseteq> {None, Some ErrQuit}"
    and ans: "listener (seen @ [event]) et used \<in> {None, Some ErrQuit}"
    using Cons.prems(2) h by auto
  note ih = Cons.IH [OF Cons.prems(1) sub]
  show ?case
    using Cons.prems(1) h ans ih
    by (auto simp: translateAll_def)
qed

lemma clearBackground_not_ErrQuit:
  "fst (clearBackground env d r) \<noteq> Some ErrQuit"
  by (auto simp: clearBackground_def GetDrawColor_def SetDrawColor_def Clear_def Let_def
      split: option.splits prod.splits)

text \<open>A frame with an empty queue: the background is cleared and the normal font chosen.\<close>

lemma PreRender_empty_queue_example:
  "PreRender okPreEnv plainDriver \<lparr>w_queue = [], w_nkc = [], w_renderer = freshRenderer\<rparr> =
     (None,
      \<lparr>w_queue = [],
       w_nkc = [ContextClear, InputBegin, InputEnd, StyleSetFont None, InputEnd],
       w_renderer =
         freshRenderer
           \<lparr>r_calls := [Call_GetDrawColor, Call_SetDrawColor (Color 0 0 0 0), Call_Clear,
                        Call_SetDrawColor (Color 0 0 0 255)]\<rparr>\<rparr>)"
  by (simp add: PreRender_def clearBackground_def GetDrawColor_def SetDrawColor_def Clear_def
      Let_def okPreEnv_def plainDriver_def zeroDriver_def freshRenderer_def f32_greater_def)

text \<open>
  C6, as amended. With no event listener installed, \<open>PreRender\<close> on a queue that holds a
  quit event takes every event off the queue, translates each of them in order (the
  events after the quit event too), ends the input session and returns \<open>ErrQuit\<close>. With a
  listener installed the decision is the listener's: as long as it answers nothing but
  nil or \<open>ErrQuit\<close>, every event is taken off the queue and translated, and \<open>ErrQuit\<close> is
  returned exactly when the listener answered \<open>ErrQuit\<close> for some event.
\<close>

theorem PreRender_quit:
  "(eventListener d = None \<and> QuitEvent \<in> set (w_queue w) \<longrightarrow>
      PreRender env d w =
        (Some ErrQuit,
         w\<lparr>w_queue := [],
           w_nkc := translateAll (eventHandler d) (w_nkc w @ [ContextClear, InputBegin]) (w_queue w)
                     @ [InputEnd, InputEnd]\<rparr>))
   \<and> (eventListener d = Some listener \<and>
       set (listenerAnswers (eventHandler d) listener [] (w_nkc w @ [ContextClear, InputBegin]) (w_queue w))
         \<subseteq> {None, Some ErrQuit} \<longrightarrow>
      (fst (PreRender env d w) = Some ErrQuit \<longleftrightarrow>
         Some ErrQuit \<in> set (listenerAnswers (eventHandler d) listener []
                               (w_nkc w @ [ContextClear, InputBegin]) (w_queue w)))
      \<and> w_queue (snd (PreRender env d w)) = []
      \<and> (\<exists>rest. w_nkc (snd (PreRender env d w)) =
            translateAll (eventHandler d) (w_nkc w @ [ContextClear, InputBegin]) (w_queue w) @ rest))"
proof (intro conjI impI)
  assume a: "eventListener d = None \<and> QuitEvent \<in> set (w_queue w)"
  then show "PreRender env d w =
        (Some ErrQuit,
         w\<lparr>w_queue := [],
           w_nkc := translateAll (eventHandler d) (w_nkc w @ [ContextClear, InputBegin]) (w_queue w)
                     @ [InputEnd, InputEnd]\<rparr>)"
    by (simp add: PreRender_def Let_def pollEvents_no_listener)
next
  assume a: "eventListener d = Some listener \<and>
       set (listenerAnswers (eventHandler d) listener [] (w_nkc w @ [ContextClear, InputBegin]) (w_queue w))
         \<subseteq> {None, Some ErrQuit}"
  then have p: "pollEvents d [] (w_nkc w @ [ContextClear, InputBegin]) True (w_queue w) =
     Inr (translateAll (eventHandler d) (w_nkc w @ [ContextClear, InputBegin]) (w_queue w),
          Some ErrQuit \<notin> set (listenerAnswers (eventHandler d) listener []
                               (w_nkc w @ [ContextClear, InputBegin]) (w_queue w)))"
    using pollEvents_listener [of d listener "[]" "w_nkc w @ [ContextClear, InputBegin]" "w_queue w" True]
    by simp
  show "fst (PreRender env d w) = Some ErrQuit \<longleftrightarrow>
         Some ErrQuit \<in> set (listenerAnswers (eventHandler d) listener []
                               (w_nkc w @ [ContextClear, InputBegin]) (w_queue w))"
    using clearBackground_not_ErrQuit [of env d "w_renderer w"]
    by (auto simp: PreRender_def Let_def p split: prod.splits)
  show "w_queue (snd (PreRender env d w)) = []"
    by (auto simp: PreRender_def Let_def p split: prod.splits)
  show "\<exists>rest. w_nkc (snd (PreRender env d w)) =
            translateAll (eventHandler d) (w_nkc w @ [ContextClear, InputBegin]) (w_queue w) @ rest"
    by (auto simp: PreRender_def Let_def p split: prod.splits)
qed

theorem PreRender_quit_witness:
  "PreRender okPreEnv plainDriver
       \<lparr>w_queue = [QuitEvent, MouseMotionEvent 3 4], w_nkc = [], w_renderer = freshRenderer\<rparr> =
     (Some ErrQuit,
      \<lparr>w_queue = [],
       w_nkc = [ContextClear, InputBegin, InputMotion 3 4, InputEnd, InputEnd],
       w_renderer = freshRenderer\<rparr>)
   \<and> listenerAnswers (EventHandler Map.empty) quittingListener [] [ContextClear, InputBegin]
         [QuitEvent, MouseMotionEvent 3 4] = [Some ErrQuit, None]
   \<and> fst (PreRender okPreEnv (plainDriver\<lparr>eventListener := Some quittingListener\<rparr>)
        \<lparr>w_queue = [QuitEvent, MouseMotionEvent 3 4], w_nkc = [], w_renderer = freshRenderer\<rparr>)
       = Some ErrQuit
   \<and> w_queue (snd (PreRender okPreEnv (plainDriver\<lparr>eventListener := Some quittingListener\<rparr>)
        \<lparr>w_queue = [QuitEvent, MouseMotionEvent 3 4], w_nkc = [], w_renderer = freshRenderer\<rparr>))
       = []"
proof -
  let ?w = "\<lparr>w_queue = [QuitEvent, MouseMotionEvent 3 4], w_nkc = [], w_renderer = freshRenderer\<rparr>"
  let ?d = "plainDriver\<lparr>eventListener := Some quittingListener\<rparr>"
  note t = PreRender_quit
  have 1: "PreRender okPreEnv plainDriver ?w =
     (Some ErrQuit,
      \<lparr>w_queue = [],
       w_nkc = [ContextClear, InputBegin, InputMotion 3 4, InputEnd, InputEnd],
       w_renderer = freshRenderer\<rparr>)"
    using t [of plainDriver ?w okPreEnv]
    by (simp add: plainDriver_def zeroDriver_def translateAll_def)
  have a: "listenerAnswers (EventHandler Map.empty) quittingListener [] [ContextClear, InputBegin]
         [QuitEvent, MouseMotionEvent 3 4] = [Some ErrQuit, None]"
    by (simp add: quittingListener_def)
  have "eventListener ?d = Some quittingListener \<and>
    set (listenerAnswers (eventHandler ?d) quittingListener [] (w_nkc ?w @ [ContextClear, InputBegin])
      (w_queue ?w)) \<subseteq> {None, Some ErrQuit}"
    using a by (simp add: plainDriver_def zeroDriver_def)
  with t [of ?d ?w okPreEnv quittingListener]
  have "(fst (PreRender okPreEnv ?d ?w) = Some ErrQuit \<longleftrightarrow>
         Some ErrQuit \<in> set (listenerAnswers (eventHandler ?d) quittingListener []
                               (w_nkc ?w @ [ContextClear, InputBegin]) (w_queue ?w)))
      \<and> w_queue (snd (PreRender okPreEnv ?d ?w)) = []"
    by blast
  then have 2: "fst (PreRender okPreEnv ?d ?w) = Some ErrQuit \<and> w_queue (snd (PreRender okPreEnv ?d ?w)) = []"
    using a by (simp add: plainDriver_def zeroDriver_def)
  from 1 a 2 show ?thesis by blast
qed

text \<open>
  The claim as stated fails when a listener is installed that answers nil to the quit
  event: the queue holds a quit event and \<open>PreRender\<close> returns nil.
\<close>

theorem PreRender_listener_ignores_quit:
  "QuitEvent \<in> set [QuitEvent]
   \<and> fst (PreRender okPreEnv (plainDriver\<lparr>eventListener := Some silentListener\<rparr>)
            \<lparr>w_queue = [QuitEvent], w_nkc = [], w_renderer = freshRenderer\<rparr>) = None"
  by (simp add: PreRender_def plainDriver_def zeroDriver_def okPreEnv_def clearBackground_def
      GetDrawColor_def SetDrawColor_def Clear_def Let_def freshRenderer_def silentListener_def)

section \<open>Properties of SetUIScale\<close>

text \<open>
  C7. \<open>SetUIScale\<close> answers with the validation error and leaves the driver as it was
  for a NaN, for a value below 0 and for a value above 5 (the infinities among them); it
  stores a value \<open>x\<close> with \<open>0 < x \<le> 5\<close> as given; and for 0 it stores the ratio of the
  renderer's output height to the window's height, or, when the output size cannot be
  read, returns that error wrapped and leaves the driver as it was.
\<close>

theorem SetUIScale_validation:
  "(s = NaN \<or> s = NegInf \<or> s = PosInf \<or> (\<exists>x. s = Finite x \<and> (x < 0 \<or> 5 < x)) \<longrightarrow>
      SetUIScale ops env d s = (Some (Error ''uiScale is out of bounds''), d))
   \<and> (0 < x \<and> x \<le> 5 \<longrightarrow> SetUIScale ops env d (Finite x) = (None, d\<lparr>uiScale := Finite x\<rparr>))
   \<and> (GetOutputSize_result env = (renderW, renderH, None) \<and> GetSize_result env = (windowW, windowH) \<longrightarrow>
      SetUIScale ops env d (Finite 0) =
        (None, d\<lparr>uiScale := fdiv ops (of_int32 ops renderH) (of_int32 ops windowH)\<rparr>))
   \<and> (GetOutputSize_result env = (renderW, renderH, Some e) \<longrightarrow>
      SetUIScale ops env d (Finite 0) =
        (Some (Errorf ''computing UI scale'' (Some (Errorf ''getting renderer output size'' (Some e)))), d))"
proof (intro conjI impI)
  assume "s = NaN \<or> s = NegInf \<or> s = PosInf \<or> (\<exists>x. s = Finite x \<and> (x < 0 \<or> 5 < x))"
  then show "SetUIScale ops env d s = (Some (Error ''uiScale is out of bounds''), d)"
    by (auto simp: SetUIScale_def f32_eq_def f32_greater_def)
next
  assume "0 < x \<and> x \<le> 5"
  then show "SetUIScale ops env d (Finite x) = (None, d\<lparr>uiScale := Finite x\<rparr>)"
    by (auto simp: SetUIScale_def f32_eq_def f32_greater_def)
next
  assume "GetOutputSize_result env = (renderW, renderH, None) \<and> GetSize_result env = (windowW, windowH)"
  then show "SetUIScale ops env d (Finite 0) =
        (None, d\<lparr>uiScale := fdiv ops (of_int32 ops renderH) (of_int32 ops windowH)\<rparr>)"
    by (simp add: SetUIScale_def f32_eq_def f32_greater_def computeUIScale_def Let_def)
next
  assume "GetOutputSize_result env = (renderW, renderH, Some e)"
  then show "SetUIScale ops env d (Finite 0) =
        (Some (Errorf ''computing UI scale'' (Some (Errorf ''getting renderer output size'' (Some e)))), d)"
    by (simp add: SetUIScale_def f32_eq_def f32_greater_def computeUIScale_def Let_def)
qed

theorem SetUIScale_validation_witness:
  "SetUIScale exact_f32_ops \<lparr>GetOutputSize_result = (1600, 1200, None), GetSize_result = (800, 600)\<rparr>
       plainDriver (Finite 7) = (Some (Error ''uiScale is out of bounds''), plainDriver)
   \<and> SetUIScale exact_f32_ops \<lparr>GetOutputSize_result = (1600, 1200, None), GetSize_result = (800, 600)\<rparr>
       plainDriver NaN = (Some (Error ''uiScale is out of bounds''), plainDriver)
   \<and> SetUIScale exact_f32_ops \<lparr>GetOutputSize_result = (1600, 1200, None), GetSize_result = (800, 600)\<rparr>
       plainDriver (Finite 5) = (None, plainDriver\<lparr>uiScale := Finite 5\<rparr>)
   \<and> SetUIScale exact_f32_ops \<lparr>GetOutputSize_result = (1600, 1200, None), GetSize_result = (800, 600)\<rparr>
       plainDriver (Finite 0) = (None, plainDriver\<lparr>uiScale := Finite 2\<rparr>)
   \<and> SetUIScale exact_f32_ops
         \<lparr>GetOutputSize_result = (0, 0, Some (Error ''Invalid renderer'')), GetSize_result = (800, 600)\<rparr>
       plainDriver (Finite 0)
       = (Some (Errorf ''computing UI scale''
            (Some (Errorf ''getting renderer output size'' (Some (Error ''Invalid renderer''))))),
          plainDriver)"
proof -
  let ?env = "\<lparr>GetOutputSize_result = (1600, 1200, None), GetSize_result = (800, 600)\<rparr>"
  let ?bad = "\<lparr>GetOutputSize_result = (0, 0, Some (Error ''Invalid renderer'')), GetSize_result = (800, 600)\<rparr>"
  note t = SetUIScale_validation
  have 1: "SetUIScale exact_f32_ops ?env plainDriver (Finite 7)
      = (Some (Error ''uiScale is out of bounds''), plainDriver)"
    using t [of "Finite 7" exact_f32_ops ?env plainDriver] by simp
  have 2: "SetUIScale exact_f32_ops ?env plainDriver NaN
      = (Some (Error ''uiScale is out of bounds''), plainDriver)"
    using t [of NaN exact_f32_ops ?env plainDriver] by simp
  have 3: "SetUIScale exact_f32_ops ?env plainDriver (Finite 5) = (None, plainDriver\<lparr>uiScale := Finite 5\<rparr>)"
    using t [of _ exact_f32_ops ?env plainDriver 5] by simp
  have 4: "SetUIScale exact_f32_ops ?env plainDriver (Finite 0) = (None, plainDriver\<lparr>uiScale := Finite 2\<rparr>)"
    using t [of _ exact_f32_ops ?env plainDriver _ 1600 1200 800 600]
    by (simp add: exact_f32_ops_def)
  have 5: "SetUIScale exact_f32_ops ?bad plainDriver (Finite 0)
       = (Some (Errorf ''computing UI scale''
            (Some (Errorf ''getting renderer output size'' (Some (Error ''Invalid renderer''))))),
          plainDriver)"
    using t [of _ exact_f32_ops ?bad plainDriver _ 0 0 _ _ "Error ''Invalid renderer''"]
    by simp
  from 1 2 3 4 5 show ?thesis by simp
qed

section \<open>Properties of PostRender\<close>

lemmas renderer_defs =
  GetScale_def SetScale_def GetClipRect_def GetViewport_def SetClipRect_def RenderGeometry_def
  Present_def

lemmas scaling_defs =
  scaleRect_def unscaleRect_def scaleCoord_def unscaleCoord_def in_int32_def

text \<open>The empty rectangle is the same at every scale.\<close>

lemma scaleCoord_zero:
  "scaleCoord floor s 0 = 0" "scaleCoord ceiling s 0 = 0" "unscaleCoord s 0 = 0"
  by (simp_all add: scaleCoord_def unscaleCoord_def in_int32_def split: float32.splits)

lemma scaleRect_emptyRect:
  "scaleRect s emptyRect = emptyRect" "unscaleRect s emptyRect = emptyRect"
  by (simp_all add: scaleRect_def unscaleRect_def emptyRect_def scaleCoord_zero)

lemma int32_of_float32_examples:
  "int32_of_float32 (Finite 0) = 0" "int32_of_float32 (Finite 100) = 100"
  "int32_of_float32 (Finite 50) = 50" "int32_of_float32 (Finite (- 10)) = - 10"
  by (simp_all add: int32_of_float32_def)

lemma clampClip_example:
  "clampClip \<lparr>X = 0, Y = 0, W = 800, H = 600\<rparr> \<lparr>X = - 10, Y = 0, W = 100, H = 50\<rparr>
     = \<lparr>X = 0, Y = 0, W = 150, H = 50\<rparr>"
  by (simp add: clampClip_def Let_def word_sless_alt)

text \<open>
  What the clamp does with a negative coordinate: for a negative Y the height is reduced
  by the part above the viewport, for a negative X the width grows by the height.
\<close>

lemma clampClip_negative_Y:
  "\<not> X c <s 0 \<Longrightarrow> Y c <s 0 \<Longrightarrow>
   Y (clampClip viewport c) = 0
   \<and> H (clampClip viewport c) = (if H viewport <s H c + Y c then H viewport else H c + Y c)"
  by (simp add: clampClip_def Let_def)

lemma clampClip_negative_X:
  "X c <s 0 \<Longrightarrow>
   X (clampClip viewport c) = 0
   \<and> W (clampClip viewport c) = (if W viewport <s W c + H c then W viewport else W c + H c)"
  by (simp add: clampClip_def Let_def)

text \<open>
  C1. The flag is set, the viewport is 800 by 600 and the one command has the clip
  rectangle (-10, 0, 100, 50). Clamped as the claim says, the rectangle passed to the
  renderer would be (0, 0, 90, 50): the right edge 90 kept. \<open>PostRender\<close> passes
  (0, 0, 150, 50): the branch for a negative X adds the height, not X, to the width.
\<close>

theorem PostRender_clamp_adds_height:
  "PostRender
     (okPostEnv [\<lparr>ElemCount = 3, ClipRect = nk_Rect (Finite (- 10)) (Finite 0) (Finite 100) (Finite 50),
                  Texture = Some 7\<rparr>] [0, 1, 2])
     (plainDriver\<lparr>clampClipRect := True\<rparr>) freshRenderer =
   (Returned None,
    freshRenderer
      \<lparr>r_clip := Some emptyRect,
       r_calls :=
         [Call_SetScale (Finite 1) (Finite 1),
          Call_SetClipRect (Some \<lparr>X = 0, Y = 0, W = 150, H = 50\<rparr>),
          Call_RenderGeometry (Some 7) [] [0, 1, 2],
          Call_SetClipRect (Some emptyRect),
          Call_Present,
          Call_SetScale (Finite 1) (Finite 1)]\<rparr>)"
  by (simp add: PostRender_def PostRender_body_def drawCallback_def okPostEnv_def every_time_def plainDriver_def
      zeroDriver_def freshRenderer_def renderer_defs scaling_defs toSDLRect_def int32_of_float32_examples
      clampClip_example Let_def emptyRect_def)

text \<open>
  \<open>PostRender\<close> never asks for "no clipping": every clip rectangle it sets is a
  rectangle, in the closure and in the restore.
\<close>

lemma drawCallback_no_nil_clip:
  "drawCallback env d viewport vs i cmd (err, r, indices) = Inr (b, err', r', indices') \<Longrightarrow>
   Call_SetClipRect None \<notin> set (r_calls r) \<Longrightarrow> Call_SetClipRect None \<notin> set (r_calls r')"
  by (auto simp: drawCallback_def renderer_defs Let_def split: if_splits option.splits)

lemma drawCallback_panic_no_nil_clip:
  "drawCallback env d viewport vs i cmd (err, r, indices) = Inl (p, r') \<Longrightarrow>
   Call_SetClipRect None \<notin> set (r_calls r) \<Longrightarrow> Call_SetClipRect None \<notin> set (r_calls r')"
  by (auto simp: drawCallback_def renderer_defs Let_def split: if_splits option.splits)

lemma DrawForEach_no_nil_clip:
  "Call_SetClipRect None \<notin> set (r_calls (fst (snd st))) \<Longrightarrow>
   (case DrawForEach env d viewport vs i cmds st of
      Inl (p, r') \<Rightarrow> Call_SetClipRect None \<notin> set (r_calls r')
    | Inr (err', r', indices') \<Rightarrow> Call_SetClipRect None \<notin> set (r_calls r'))"
proof (induction cmds arbitrary: i st)
  case Nil
  then show ?case by (cases st) auto
next
  case (Cons cmd cmds)
  obtain err r indices where st: "st = (err, r, indices)" by (cases st)
  show ?case
  proof (cases "drawCallback env d viewport vs i cmd st")
    case (Inl a)
    then show ?thesis
      using drawCallback_panic_no_nil_clip [of env d viewport vs i cmd err r indices] Cons.prems st
      by (cases a) auto
  next
    case (Inr a)
    obtain b err' r' indices' where a: "a = (b, err', r', indices')" by (cases a)
    have n: "Call_SetClipRect None \<notin> set (r_calls r')"
      using drawCallback_no_nil_clip [of env d viewport vs i cmd err r indices b err' r' indices']
        Inr a st Cons.prems by simp
    show ?thesis
    proof (cases b)
      case True
      then show ?thesis using Inr a Cons.IH [of "(err', r', indices')" "i + 1"] n by simp
    next
      case False
      then show ?thesis using Inr a n by simp
    qed
  qed
qed

lemma PostRender_never_nil_clip:
  "Call_SetClipRect None \<notin> set (r_calls r) \<Longrightarrow>
   Call_SetClipRect None \<notin> set (r_calls (snd (PostRender env d r)))"
proof -
  assume a: "Call_SetClipRect None \<notin> set (r_calls r)"
  let ?r0 = "snd (SetScale None r (uiScale d) (uiScale d))"
  have r0: "Call_SetClipRect None \<notin> set (r_calls ?r0)" using a by (simp add: SetScale_def)
  have body: "Call_SetClipRect None \<notin> set (r_calls (snd (PostRender_body env d ?r0)))"
    using DrawForEach_no_nil_clip [of "(None, ?r0, Convert_elements env)" env d "GetViewport ?r0"
        "Convert_vertices env" 0 "Convert_commands env"] r0
    by (auto simp: PostRender_body_def Let_def SetClipRect_def Present_def
        split: option.splits sum.splits prod.splits)
  show ?thesis
  proof (cases "SetScale_err env")
    case None
    then show ?thesis using body
      by (auto simp: PostRender_def GetScale_def SetScale_def split: prod.splits go_result.splits)
  next
    case (Some e)
    then show ?thesis using a
      by (auto simp: PostRender_def GetScale_def SetScale_def split: prod.splits)
  qed
qed

text \<open>
  C2. Clipping is disabled before the call and \<open>PostRender\<close> returns nil. Then the clip
  state it leaves is the empty rectangle that \<open>GetClipRect\<close> answered, set as a
  rectangle by the last \<open>SetClipRect\<close> before \<open>Present\<close>, and not "no clipping".
\<close>

theorem PostRender_restores_empty_clip:
  "r_clip r = None \<Longrightarrow> fst (PostRender env d r) = Returned None \<Longrightarrow>
   r_clip (snd (PostRender env d r)) = Some emptyRect
   \<and> (\<exists>before. r_calls (snd (PostRender env d r)) =
         before @ [Call_SetClipRect (Some emptyRect), Call_Present,
                   Call_SetScale (fst (r_scale r)) (snd (r_scale r))])"
  by (auto simp: PostRender_def PostRender_body_def renderer_defs scaleRect_emptyRect Let_def
      split: prod.splits option.splits sum.splits go_result.splits if_splits)

theorem PostRender_restores_empty_clip_witness:
  "r_clip freshRenderer = None
   \<and> fst (PostRender (okPostEnv [] []) plainDriver freshRenderer) = Returned None
   \<and> r_clip (snd (PostRender (okPostEnv [] []) plainDriver freshRenderer)) = Some emptyRect
   \<and> r_clip (snd (PostRender (okPostEnv [] []) plainDriver freshRenderer)) \<noteq> None"
proof -
  have a: "r_clip freshRenderer = None" by (simp add: freshRenderer_def)
  have b: "fst (PostRender (okPostEnv [] []) plainDriver freshRenderer) = Returned None"
    by (simp add: PostRender_def PostRender_body_def okPostEnv_def every_time_def plainDriver_def zeroDriver_def
        freshRenderer_def renderer_defs scaling_defs Let_def)
  from PostRender_restores_empty_clip [OF a b] a b show ?thesis by simp
qed

text \<open>
  A run in which no call fails and the elements fit the index buffer: the draws issued
  are one per command with elements, each from the cursor's position, and the cursor
  ends past the elements of all commands.
\<close>

lemma DrawForEach_all_succeed:
  "\<forall>j. SetClipRect_err env j = None \<and> RenderGeometry_err env j = None \<Longrightarrow>
   totalElems cmds \<le> length indices \<Longrightarrow>
   \<exists>r'. DrawForEach env d viewport vs i cmds (None, r, indices)
          = Inr (None, r', drop (totalElems cmds) indices)
      \<and> filter isGeometry (r_calls r') = filter isGeometry (r_calls r) @ geometryCalls vs indices cmds"
proof (induction cmds arbitrary: i r indices)
  case Nil
  then show ?case by (simp add: totalElems_def)
next
  case (Cons cmd cmds)
  show ?case
  proof (cases "ElemCount cmd = 0")
    case True
    then have t: "totalElems (cmd # cmds) = totalElems cmds" by (simp add: totalElems_def)
    from Cons.IH [OF Cons.prems(1), of indices "i + 1" r] Cons.prems(2) t
    obtain r' where "DrawForEach env d viewport vs (i + 1) cmds (None, r, indices)
          = Inr (None, r', drop (totalElems cmds) indices)"
      and "filter isGeometry (r_calls r') = filter isGeometry (r_calls r) @ geometryCalls vs indices cmds"
      by auto
    then show ?thesis using True t by (simp add: drawCallback_def)
  next
    case False
    let ?n = "unat (ElemCount cmd)"
    let ?r1 = "r\<lparr>r_clip := Some (scaleRect (r_scale r) (commandClip d viewport cmd)),
               r_calls := r_calls r @
                 [Call_SetClipRect (Some (commandClip d viewport cmd)),
                  Call_RenderGeometry (Texture cmd) vs (take ?n indices)]\<rparr>"
    have t: "totalElems (cmd # cmds) = ?n + totalElems cmds" by (simp add: totalElems_def)
    then have fit: "?n \<le> length indices" and rest: "totalElems cmds \<le> length (drop ?n indices)"
      using Cons.prems(2) by auto
    have step: "drawCallback env d viewport vs i cmd (None, r, indices)
        = Inr (True, None, ?r1, drop ?n indices)"
      using False fit Cons.prems(1) by (simp add: drawCallback_def commandClip_def renderer_defs Let_def)
    from Cons.IH [OF Cons.prems(1) rest, of "i + 1" ?r1]
    obtain r' where "DrawForEach env d viewport vs (i + 1) cmds (None, ?r1, drop ?n indices)
          = Inr (None, r', drop (totalElems cmds) (drop ?n indices))"
      and "filter isGeometry (r_calls r') = filter isGeometry (r_calls ?r1)
             @ geometryCalls vs (drop ?n indices) cmds"
      by auto
    then show ?thesis using step False t by (simp add: add.commute)
  qed
qed

text \<open>
  C8, as amended. A command with no elements is skipped: no call is made, the cursor and
  the state stay as they are and the iteration goes on with the next command. For a
  command with elements the clip rectangle is set; when that succeeds and the elements
  fit the remaining indices, one draw is issued from the cursor's position, and when the
  draw succeeds the cursor advances by the element count. A clip or draw call that fails
  ends the iteration with the cursor where it was, and the draw is not issued when the
  clip call failed. Elements beyond the remaining indices make the slice expression
  panic. Over a whole command list, when no call fails and the elements of all commands
  fit the index buffer, the draws issued are exactly one per command with elements, each
  from the cursor's position at that time, and the cursor ends past all of them.
\<close>

theorem PostRender_draw_command_steps:
  "(ElemCount cmd = 0 \<longrightarrow>
      drawCallback env d viewport vs i cmd (err, r, indices) = Inr (True, err, r, indices)
      \<and> DrawForEach env d viewport vs i (cmd # cmds) (err, r, indices)
          = DrawForEach env d viewport vs (i + 1) cmds (err, r, indices))
   \<and> (ElemCount cmd \<noteq> 0 \<and> SetClipRect_err env i = None
        \<and> unat (ElemCount cmd) \<le> length indices \<and> RenderGeometry_err env i = None \<longrightarrow>
      drawCallback env d viewport vs i cmd (err, r, indices) =
        Inr (True, None,
             r\<lparr>r_clip := Some (scaleRect (r_scale r) (commandClip d viewport cmd)),
               r_calls := r_calls r @
                 [Call_SetClipRect (Some (commandClip d viewport cmd)),
                  Call_RenderGeometry (Texture cmd) vs (take (unat (ElemCount cmd)) indices)]\<rparr>,
             drop (unat (ElemCount cmd)) indices))
   \<and> (ElemCount cmd \<noteq> 0 \<and> SetClipRect_err env i = Some e \<longrightarrow>
      drawCallback env d viewport vs i cmd (err, r, indices) =
        Inr (False, Some (Errorf ''setting renderer clip rectangle'' (Some e)),
             r\<lparr>r_calls := r_calls r @ [Call_SetClipRect (Some (commandClip d viewport cmd))]\<rparr>,
             indices)
      \<and> DrawForEach env d viewport vs i (cmd # cmds) (err, r, indices) =
        Inr (Some (Errorf ''setting renderer clip rectangle'' (Some e)),
             r\<lparr>r_calls := r_calls r @ [Call_SetClipRect (Some (commandClip d viewport cmd))]\<rparr>,
             indices))
   \<and> (ElemCount cmd \<noteq> 0 \<and> SetClipRect_err env i = None
        \<and> unat (ElemCount cmd) \<le> length indices \<and> RenderGeometry_err env i = Some e \<longrightarrow>
      drawCallback env d viewport vs i cmd (err, r, indices) =
        Inr (False, Some (Errorf ''rendering raw geometry'' (Some e)),
             r\<lparr>r_clip := Some (scaleRect (r_scale r) (commandClip d viewport cmd)),
               r_calls := r_calls r @
                 [Call_SetClipRect (Some (commandClip d viewport cmd)),
                  Call_RenderGeometry (Texture cmd) vs (take (unat (ElemCount cmd)) indices)]\<rparr>,
             indices)
      \<and> DrawForEach env d viewport vs i (cmd # cmds) (err, r, indices) =
        Inr (Some (Errorf ''rendering raw geometry'' (Some e)),
             r\<lparr>r_clip := Some (scaleRect (r_scale r) (commandClip d viewport cmd)),
               r_calls := r_calls r @
                 [Call_SetClipRect (Some (commandClip d viewport cmd)),
                  Call_RenderGeometry (Texture cmd) vs (take (unat (ElemCount cmd)) indices)]\<rparr>,
             indices))
   \<and> (ElemCount cmd \<noteq> 0 \<and> SetClipRect_err env i = None
        \<and> length indices < unat (ElemCount cmd) \<longrightarrow>
      drawCallback env d viewport vs i cmd (err, r, indices) =
        Inl (SliceBoundsOutOfRange,
             r\<lparr>r_clip := Some (scaleRect (r_scale r) (commandClip d viewport cmd)),
               r_calls := r_calls r @ [Call_SetClipRect (Some (commandClip d viewport cmd))]\<rparr>))
   \<and> ((\<forall>j. SetClipRect_err env j = None \<and> RenderGeometry_err env j = None)
        \<and> totalElems cmds \<le> length indices \<longrightarrow>
      (\<exists>r'. DrawForEach env d viewport vs i cmds (None, r, indices)
              = Inr (None, r', drop (totalElems cmds) indices)
         \<and> filter isGeometry (r_calls r')
              = filter isGeometry (r_calls r) @ geometryCalls vs indices cmds))"
proof -
  have loop: "(\<forall>j. SetClipRect_err env j = None \<and> RenderGeometry_err env j = None)
        \<and> totalElems cmds \<le> length indices \<longrightarrow>
      (\<exists>r'. DrawForEach env d viewport vs i cmds (None, r, indices)
              = Inr (None, r', drop (totalElems cmds) indices)
         \<and> filter isGeometry (r_calls r')
              = filter isGeometry (r_calls r) @ geometryCalls vs indices cmds)"
    using DrawForEach_all_succeed [of env cmds indices d viewport vs i r] by blast
  show ?thesis
    by (intro conjI loop) (simp_all add: drawCallback_def commandClip_def renderer_defs Let_def)
qed

theorem PostRender_draw_command_steps_witness:
  "drawCallback (okPostEnv [] []) plainDriver \<lparr>X = 0, Y = 0, W = 800, H = 600\<rparr> [] 0
       \<lparr>ElemCount = 0, ClipRect = nk_Rect (Finite 0) (Finite 0) (Finite 100) (Finite 50),
        Texture = Some 7\<rparr> (None, freshRenderer, [0, 1, 2])
     = Inr (True, None, freshRenderer, [0, 1, 2])
   \<and> drawCallback (okPostEnv [] []) plainDriver \<lparr>X = 0, Y = 0, W = 800, H = 600\<rparr> [] 0
       \<lparr>ElemCount = 2, ClipRect = nk_Rect (Finite 0) (Finite 0) (Finite 100) (Finite 50),
        Texture = Some 7\<rparr> (None, freshRenderer, [0, 1, 2])
     = Inr (True, None,
            freshRenderer
              \<lparr>r_clip := Some \<lparr>X = 0, Y = 0, W = 100, H = 50\<rparr>,
               r_calls := [Call_SetClipRect (Some \<lparr>X = 0, Y = 0, W = 100, H = 50\<rparr>),
                           Call_RenderGeometry (Some 7) [] [0, 1]]\<rparr>,
            [2])
   \<and> drawCallback ((okPostEnv [] [])\<lparr>SetClipRect_err := every_time (Some (Error ''Invalid renderer''))\<rparr>)
       plainDriver \<lparr>X = 0, Y = 0, W = 800, H = 600\<rparr> [] 0
       \<lparr>ElemCount = 2, ClipRect = nk_Rect (Finite 0) (Finite 0) (Finite 100) (Finite 50),
        Texture = Some 7\<rparr> (None, freshRenderer, [0, 1, 2])
     = Inr (False, Some (Errorf ''setting renderer clip rectangle'' (Some (Error ''Invalid renderer''))),
            freshRenderer
              \<lparr>r_calls := [Call_SetClipRect (Some \<lparr>X = 0, Y = 0, W = 100, H = 50\<rparr>)]\<rparr>,
            [0, 1, 2])
   \<and> drawCallback ((okPostEnv [] [])\<lparr>RenderGeometry_err := every_time (Some (Error ''Invalid texture''))\<rparr>)
       plainDriver \<lparr>X = 0, Y = 0, W = 800, H = 600\<rparr> [] 0
       \<lparr>ElemCount = 2, ClipRect = nk_Rect (Finite 0) (Finite 0) (Finite 100) (Finite 50),
        Texture = Some 7\<rparr> (None, freshRenderer, [0, 1, 2])
     = Inr (False, Some (Errorf ''rendering raw geometry'' (Some (Error ''Invalid texture''))),
            freshRenderer
              \<lparr>r_clip := Some \<lparr>X = 0, Y = 0, W = 100, H = 50\<rparr>,
               r_calls := [Call_SetClipRect (Some \<lparr>X = 0, Y = 0, W = 100, H = 50\<rparr>),
                           Call_RenderGeometry (Some 7) [] [0, 1]]\<rparr>,
            [0, 1, 2])
   \<and> drawCallback (okPostEnv [] []) plainDriver \<lparr>X = 0, Y = 0, W = 800, H = 600\<rparr> [] 0
       \<lparr>ElemCount = 5, ClipRect = nk_Rect (Finite 0) (Finite 0) (Finite 100) (Finite 50),
        Texture = Some 7\<rparr> (None, freshRenderer, [0, 1, 2])
     = Inl (SliceBoundsOutOfRange,
            freshRenderer
              \<lparr>r_clip := Some \<lparr>X = 0, Y = 0, W = 100, H = 50\<rparr>,
               r_calls := [Call_SetClipRect (Some \<lparr>X = 0, Y = 0, W = 100, H = 50\<rparr>)]\<rparr>)
   \<and> (\<exists>r'. DrawForEach (okPostEnv [] []) plainDriver \<lparr>X = 0, Y = 0, W = 800, H = 600\<rparr> [] 0
          [\<lparr>ElemCount = 0, ClipRect = nk_Rect (Finite 0) (Finite 0) (Finite 100) (Finite 50),
            Texture = Some 7\<rparr>,
           \<lparr>ElemCount = 2, ClipRect = nk_Rect (Finite 0) (Finite 0) (Finite 100) (Finite 50),
            Texture = Some 7\<rparr>] (None, freshRenderer, [0, 1, 2])
          = Inr (None, r', [2])
        \<and> filter isGeometry (r_calls r') = [Call_RenderGeometry (Some 7) [] [0, 1]])"
proof -
  let ?vp = "\<lparr>X = 0, Y = 0, W = 800, H = 600\<rparr>"
  let ?c0 = "\<lparr>ElemCount = 0, ClipRect = nk_Rect (Finite 0) (Finite 0) (Finite 100) (Finite 50),
        Texture = Some 7\<rparr>"
  let ?c2 = "\<lparr>ElemCount = 2, ClipRect = nk_Rect (Finite 0) (Finite 0) (Finite 100) (Finite 50),
        Texture = Some 7\<rparr>"
  let ?c5 = "\<lparr>ElemCount = 5, ClipRect = nk_Rect (Finite 0) (Finite 0) (Finite 100) (Finite 50),
        Texture = Some 7\<rparr>"
  let ?ok = "okPostEnv [] []"
  let ?noclip = "(okPostEnv [] [])\<lparr>SetClipRect_err := every_time (Some (Error ''Invalid renderer''))\<rparr>"
  let ?nodraw = "(okPostEnv [] [])\<lparr>RenderGeometry_err := every_time (Some (Error ''Invalid texture''))\<rparr>"
  note t = PostRender_draw_command_steps
  note ev = okPostEnv_def every_time_def commandClip_def plainDriver_def zeroDriver_def toSDLRect_def
    int32_of_float32_examples freshRenderer_def scaling_defs
  have 1: "drawCallback ?ok plainDriver ?vp [] 0 ?c0 (None, freshRenderer, [0, 1, 2])
      = Inr (True, None, freshRenderer, [0, 1, 2])"
    using t [of ?c0 ?ok plainDriver ?vp "[]" 0 None freshRenderer "[0, 1, 2]"]
    by simp
  have 2: "drawCallback ?ok plainDriver ?vp [] 0 ?c2 (None, freshRenderer, [0, 1, 2])
      = Inr (True, None,
            freshRenderer
              \<lparr>r_clip := Some \<lparr>X = 0, Y = 0, W = 100, H = 50\<rparr>,
               r_calls := [Call_SetClipRect (Some \<lparr>X = 0, Y = 0, W = 100, H = 50\<rparr>),
                           Call_RenderGeometry (Some 7) [] [0, 1]]\<rparr>,
            [2])"
    using t [of ?c2 ?ok plainDriver ?vp "[]" 0 None freshRenderer "[0, 1, 2]"]
    by (simp add: ev)
  have 3: "drawCallback ?noclip plainDriver ?vp [] 0 ?c2 (None, freshRenderer, [0, 1, 2])
     = Inr (False, Some (Errorf ''setting renderer clip rectangle'' (Some (Error ''Invalid renderer''))),
            freshRenderer
              \<lparr>r_calls := [Call_SetClipRect (Some \<lparr>X = 0, Y = 0, W = 100, H = 50\<rparr>)]\<rparr>,
            [0, 1, 2])"
    using t [of ?c2 ?noclip plainDriver ?vp "[]" 0 None freshRenderer "[0, 1, 2]" _ "Error ''Invalid renderer''"]
    by (simp add: ev)
  have 4: "drawCallback ?nodraw plainDriver ?vp [] 0 ?c2 (None, freshRenderer, [0, 1, 2])
     = Inr (False, Some (Errorf ''rendering raw geometry'' (Some (Error ''Invalid texture''))),
            freshRenderer
              \<lparr>r_clip := Some \<lparr>X = 0, Y = 0, W = 100, H = 50\<rparr>,
               r_calls := [Call_SetClipRect (Some \<lparr>X = 0, Y = 0, W = 100, H = 50\<rparr>),
                           Call_RenderGeometry (Some 7) [] [0, 1]]\<rparr>,
            [0, 1, 2])"
    using t [of ?c2 ?nodraw plainDriver ?vp "[]" 0 None freshRenderer "[0, 1, 2]" _ "Error ''Invalid texture''"]
    by (simp add: ev)
  have 5: "drawCallback ?ok plainDriver ?vp [] 0 ?c5 (None, freshRenderer, [0, 1, 2])
     = Inl (SliceBoundsOutOfRange,
            freshRenderer
              \<lparr>r_clip := Some \<lparr>X = 0, Y = 0, W = 100, H = 50\<rparr>,
               r_calls := [Call_SetClipRect (Some \<lparr>X = 0, Y = 0, W = 100, H = 50\<rparr>)]\<rparr>)"
    using t [of ?c5 ?ok plainDriver ?vp "[]" 0 None freshRenderer "[0, 1, 2]"]
    by (simp add: ev)
  have "(\<forall>j. SetClipRect_err ?ok j = None \<and> RenderGeometry_err ?ok j = None)
      \<and> totalElems [?c0, ?c2] \<le> length [0, 1, 2 :: 32 word]"
    by (simp add: okPostEnv_def every_time_def totalElems_def)
  with t [of _ ?ok plainDriver ?vp "[]" 0 _ freshRenderer "[0, 1, 2]" "[?c0, ?c2]"]
  obtain r' where "DrawForEach ?ok plainDriver ?vp [] 0 [?c0, ?c2] (None, freshRenderer, [0, 1, 2])
        = Inr (None, r', drop (totalElems [?c0, ?c2]) [0, 1, 2])"
    and "filter isGeometry (r_calls r')
        = filter isGeometry (r_calls freshRenderer) @ geometryCalls [] [0, 1, 2] [?c0, ?c2]"
    by blast
  then have 6: "\<exists>r'. DrawForEach ?ok plainDriver ?vp [] 0 [?c0, ?c2] (None, freshRenderer, [0, 1, 2])
          = Inr (None, r', [2])
        \<and> filter isGeometry (r_calls r') = [Call_RenderGeometry (Some 7) [] [0, 1]]"
    by (simp add: totalElems_def freshRenderer_def)
  from 1 2 3 4 5 6 show ?thesis by simp
qed

text \<open>
  The claim as stated fails when the clip call fails: the command has three elements and
  \<open>PostRender\<close> issues no draw for it.
\<close>

theorem PostRender_no_draw_after_clip_failure:
  "ElemCount \<lparr>ElemCount = 3, ClipRect = nk_Rect (Finite 0) (Finite 0) (Finite 100) (Finite 50),
              Texture = Some 7\<rparr> \<noteq> 0
   \<and> PostRender
       ((okPostEnv [\<lparr>ElemCount = 3, ClipRect = nk_Rect (Finite 0) (Finite 0) (Finite 100) (Finite 50),
                    Texture = Some 7\<rparr>] [0, 1, 2])
          \<lparr>SetClipRect_err := every_time (Some (Error ''Invalid renderer''))\<rparr>)
       plainDriver freshRenderer =
     (Returned (Some (Errorf ''error in context.DrawForEach''
        (Some (Errorf ''setting renderer clip rectangle'' (Some (Error ''Invalid renderer'')))))),
      freshRenderer
        \<lparr>r_calls :=
           [Call_SetScale (Finite 1) (Finite 1),
            Call_SetClipRect (Some \<lparr>X = 0, Y = 0, W = 100, H = 50\<rparr>),
            Call_SetScale (Finite 1) (Finite 1)]\<rparr>)"
  by (simp add: PostRender_def PostRender_body_def drawCallback_def okPostEnv_def every_time_def plainDriver_def
      zeroDriver_def freshRenderer_def renderer_defs scaling_defs toSDLRect_def int32_of_float32_examples
      Let_def emptyRect_def)









end
